theory Spec2Isabelle
  imports Main
begin

section \<open>Perpustakaan Digital: the Firestore helper of the library application\<close>

text \<open>
  The development embeds the book and loan operations of the application's Firestore
  helper (\<^verbatim>\<open>addBook\<close>, \<^verbatim>\<open>deleteBook\<close>, \<^verbatim>\<open>getBookById\<close>,
  \<^verbatim>\<open>borrowBook\<close>, \<^verbatim>\<open>returnBook\<close>, \<^verbatim>\<open>hasUserBorrowedBook\<close>) and the document types
  they work on. The Firestore database is an explicit state: each collection is a map
  from document ids to documents. Every operation takes the state and returns its
  outcome together with the state after it, so that what a failed call leaves behind is
  proved, not assumed. The functions of the Firestore SDK that the helper calls
  (\<^verbatim>\<open>doc\<close>, \<^verbatim>\<open>runTransaction\<close>) are modelled after the SDK's behaviour, as far as the
  helper depends on it: the check of a document reference and the retries of a
  transaction.
\<close>

subsection \<open>Document types\<close>

text \<open>
  \<^verbatim>\<open>status: 'AVAILABLE' | 'BORROWED'\<close> of a book and
  \<^verbatim>\<open>status: 'BORROWED' | 'RETURNED'\<close> of a transaction are two different union types
  of the source; the transaction's literals carry the prefix \<open>TX_\<close> here, and its
  field \<^verbatim>\<open>status\<close> is \<open>loanStatus\<close>, so that the two fields keep apart.
  Dates are server timestamps, modelled as natural numbers; an optional field is an
  \<open>option\<close>.
\<close>

datatype BookStatus = AVAILABLE | BORROWED

datatype TransactionStatus = TX_BORROWED | TX_RETURNED

datatype Role = admin | member

record User =
  uid :: string
  email :: string
  role :: Role
  name :: string

record BookDoc =
  title :: string
  author :: string
  coverUrl :: string
  status :: BookStatus
  description :: "string option"
  isbn :: "string option"
  createdAt :: "nat option"
  updatedAt :: "nat option"

text \<open>\<^verbatim>\<open>Book\<close> is a \<^verbatim>\<open>BookDoc\<close> together with the document id (field \<^verbatim>\<open>id\<close>).\<close>

record Book = BookDoc +
  ident :: string

text \<open>The argument of \<^verbatim>\<open>addBook\<close>:
  \<^verbatim>\<open>Omit<BookDoc, 'coverUrl' | 'status' | 'createdAt' | 'updatedAt'>\<close>.\<close>

record BookData =
  newTitle :: string
  newAuthor :: string
  newDescription :: "string option"
  newIsbn :: "string option"

record TransactionDoc =
  bookId :: string
  userId :: string
  borrowDate :: nat
  returnDate :: "nat option"
  loanStatus :: TransactionStatus
  bookTitle :: "string option"
  userName :: "string option"

text \<open>\<^verbatim>\<open>BorrowBookResponse\<close> and \<^verbatim>\<open>ReturnBookResponse\<close> have the same two fields.\<close>

record BorrowBookResponse =
  transactionId :: string
  message :: string

type_synonym ReturnBookResponse = BorrowBookResponse

subsection \<open>Exceptions\<close>

text \<open>
  What the code throws and catches: a plain JavaScript \<^verbatim>\<open>Error\<close> with a message, or
  the \<^verbatim>\<open>FirebaseError\<close> of the Firestore SDK, which carries one of the SDK's error
  codes and a message. The operations read only \<^verbatim>\<open>error.message\<close>.
\<close>

datatype Code =
    CANCELLED | UNKNOWN | INVALID_ARGUMENT | DEADLINE_EXCEEDED | NOT_FOUND | ALREADY_EXISTS
  | PERMISSION_DENIED | RESOURCE_EXHAUSTED | FAILED_PRECONDITION | ABORTED | OUT_OF_RANGE
  | UNIMPLEMENTED | INTERNAL | UNAVAILABLE | DATA_LOSS | UNAUTHENTICATED

datatype exn = Error string | FirebaseError Code string

fun errorMessage :: "exn \<Rightarrow> string" where
  "errorMessage (Error m) = m"
| "errorMessage (FirebaseError c m) = m"

text \<open>\<^verbatim>\<open>error.message || fallback\<close>: the empty message is falsy.\<close>

definition messageOr :: "exn \<Rightarrow> string \<Rightarrow> string" where
  "messageOr error fallback = (if errorMessage error = [] then fallback else errorMessage error)"

subsection \<open>Document references\<close>

text \<open>
  \<^verbatim>\<open>doc(db, collection, id)\<close> builds the path of the document from its arguments: the
  first must not be empty; each is refused when it contains \<^verbatim>\<open>//\<close>, then split at
  \<^verbatim>\<open>/\<close>, the empty pieces dropped; the path must have an even number of segments. So
  the empty id and an id such as \<^verbatim>\<open>a/b\<close> are refused, before anything is read, with a
  \<^verbatim>\<open>FirebaseError\<close> of code \<^verbatim>\<open>invalid-argument\<close>.
\<close>

definition BOOKS :: string where
  "BOOKS = ''books''"

definition TRANSACTIONS :: string where
  "TRANSACTIONS = ''transactions''"

fun hasDoubleSlash :: "string \<Rightarrow> bool" where
  "hasDoubleSlash (a # b # cs) = ((a = CHR ''/'' \<and> b = CHR ''/'') \<or> hasDoubleSlash (b # cs))"
| "hasDoubleSlash cs = False"

text \<open>\<^verbatim>\<open>path.split('/')\<close>, the piece being read in the first argument.\<close>

fun splitSlash :: "string \<Rightarrow> string \<Rightarrow> string list" where
  "splitSlash cur [] = [cur]"
| "splitSlash cur (c # cs) =
     (if c = CHR ''/'' then cur # splitSlash [] cs else splitSlash (cur @ [c]) cs)"

definition pathSegments :: "string \<Rightarrow> string list" where
  "pathSegments p = filter (\<lambda>segment. segment \<noteq> []) (splitSlash [] p)"

text \<open>\<^verbatim>\<open>segments.join('/')\<close> and the decimal digits of a length, for the message.\<close>

fun joinSlash :: "string list \<Rightarrow> string" where
  "joinSlash [] = []"
| "joinSlash [x] = x"
| "joinSlash (x # y # zs) = x @ ''/'' @ joinSlash (y # zs)"

definition digitChar :: "nat \<Rightarrow> char" where
  "digitChar d = ''0123456789'' ! d"

function showNat :: "nat \<Rightarrow> string" where
  "showNat n = (if n < 10 then [digitChar n] else showNat (n div 10) @ [digitChar (n mod 10)])"
  by pat_completeness auto
termination
  by (relation "measure id") auto

text \<open>
  The documents of this database are those of the two collections; a reference with a
  longer path points into a subcollection, where the application stores nothing.
\<close>

datatype DocumentReference = BookRef string | TransactionRef string | OtherRef "string list"

definition doc :: "string \<Rightarrow> string \<Rightarrow> exn + DocumentReference" where
  "doc collectionPath k =
     (if collectionPath = []
      then Inl (FirebaseError INVALID_ARGUMENT ''Function doc() cannot be called with an empty path.'')
      else if hasDoubleSlash collectionPath
      then Inl (FirebaseError INVALID_ARGUMENT
             (''Invalid segment ('' @ collectionPath @ ''). Paths must not contain // in them.''))
      else if hasDoubleSlash k
      then Inl (FirebaseError INVALID_ARGUMENT
             (''Invalid segment ('' @ k @ ''). Paths must not contain // in them.''))
      else
        (let segments = pathSegments collectionPath @ pathSegments k in
         if odd (length segments)
         then Inl (FirebaseError INVALID_ARGUMENT
                (''Invalid document reference. Document references must have an even number of segments, but ''
                 @ joinSlash segments @ '' has '' @ showNat (length segments) @ ''.''))
         else
           (case segments of
              [c, d] \<Rightarrow>
                if c = BOOKS then Inr (BookRef d)
                else if c = TRANSACTIONS then Inr (TransactionRef d)
                else Inr (OtherRef segments)
            | _ \<Rightarrow> Inr (OtherRef segments))))"

text \<open>An id as documents have it: not empty, without a slash.\<close>

definition plainId :: "string \<Rightarrow> bool" where
  "plainId k = (k \<noteq> [] \<and> CHR ''/'' \<notin> set k)"

subsection \<open>The database and its environment\<close>

record db =
  books :: "string \<rightharpoonup> BookDoc"
  transactions :: "string \<rightharpoonup> TransactionDoc"

definition bookAt :: "db \<Rightarrow> DocumentReference \<Rightarrow> BookDoc option" where
  "bookAt s r = (case r of BookRef k \<Rightarrow> books s k | _ \<Rightarrow> None)"

definition transactionAt :: "db \<Rightarrow> DocumentReference \<Rightarrow> TransactionDoc option" where
  "transactionAt s r = (case r of TransactionRef k \<Rightarrow> transactions s k | _ \<Rightarrow> None)"

text \<open>
  What one call of an operation receives from outside the program:
  \<^item> \<open>now\<close>: the value the server substitutes for \<^verbatim>\<open>serverTimestamp()\<close> when it
    commits;
  \<^item> \<open>autoId\<close>: the document id generated by \<^verbatim>\<open>doc(collection)\<close> or \<^verbatim>\<open>addDoc\<close>
    (in a transaction: by the attempt that commits);
  \<^item> \<open>downloadURL\<close>: the URL \<^verbatim>\<open>getDownloadURL\<close> gives for an uploaded cover;
  \<^item> \<open>rejects\<close>: for each awaited call of the store outside a transaction, numbered by
    its place in the operation's text from 0, whether it rejects and with which exception;
  \<^item> \<open>attempts\<close>: the same for the calls inside a transaction, for each attempt of the
    transaction (numbered from 0) and each call site in it.
  The contents of the Storage bucket are not part of the state: only whether an upload
  or a deletion there fails matters to the operations below.
\<close>

record env =
  now :: nat
  autoId :: string
  downloadURL :: string
  rejects :: "nat \<Rightarrow> exn option"
  attempts :: "nat \<Rightarrow> nat \<Rightarrow> exn option"

subsection \<open>Firestore transactions\<close>

text \<open>
  Inside \<^verbatim>\<open>runTransaction\<close> the body reads documents with \<^verbatim>\<open>transaction.get\<close> and
  records writes with \<^verbatim>\<open>transaction.update\<close> and \<^verbatim>\<open>transaction.set\<close>. The writes
  are applied together when the body has returned and the commit succeeds; when the body
  throws or the commit rejects, none is applied.
  \<^verbatim>\<open>update\<close> changes the named fields of an existing document (Firestore rejects it for
  a missing one; both bodies below update only documents they have just read as
  existing). \<^verbatim>\<open>set\<close> stores the document under the id, replacing what is there.
\<close>

datatype tx_write =
    UpdateBook DocumentReference BookStatus nat
  | SetTransaction string TransactionDoc
  | UpdateTransaction DocumentReference TransactionStatus nat

fun apply_write :: "tx_write \<Rightarrow> db \<Rightarrow> db" where
  "apply_write (UpdateBook r st ts) s =
     (case r of
        BookRef k \<Rightarrow>
          (case books s k of
             None \<Rightarrow> s
           | Some d \<Rightarrow> s\<lparr>books := (books s)(k \<mapsto> d\<lparr>status := st, updatedAt := Some ts\<rparr>)\<rparr>)
      | _ \<Rightarrow> s)"
| "apply_write (SetTransaction k d) s = s\<lparr>transactions := (transactions s)(k \<mapsto> d)\<rparr>"
| "apply_write (UpdateTransaction r st ts) s =
     (case r of
        TransactionRef k \<Rightarrow>
          (case transactions s k of
             None \<Rightarrow> s
           | Some d \<Rightarrow>
               s\<lparr>transactions := (transactions s)(k \<mapsto> d\<lparr>loanStatus := st, returnDate := Some ts\<rparr>)\<rparr>)
      | _ \<Rightarrow> s)"

fun apply_writes :: "tx_write list \<Rightarrow> db \<Rightarrow> db" where
  "apply_writes [] s = s"
| "apply_writes (w # ws) s = apply_writes ws (apply_write w s)"

text \<open>
  \<^verbatim>\<open>transaction.get(ref)\<close> at call site \<open>site\<close> of an attempt whose rejections are
  \<open>rej\<close>: the snapshot, or the rejection.
\<close>

definition txGet :: "(nat \<Rightarrow> exn option) \<Rightarrow> nat \<Rightarrow> 'a option \<Rightarrow> exn + 'a option" where
  "txGet rej site snapshot = (case rej site of Some err \<Rightarrow> Inl err | None \<Rightarrow> Inr snapshot)"

text \<open>One attempt: the body, then the commit of the writes it recorded.\<close>

definition attempt ::
  "(nat \<Rightarrow> exn option) \<Rightarrow> nat \<Rightarrow> ((nat \<Rightarrow> exn option) \<Rightarrow> db \<Rightarrow> exn + 'a \<times> tx_write list) \<Rightarrow>
     db \<Rightarrow> exn + 'a \<times> db" where
  "attempt rej commitSite body s =
     (case body rej s of
        Inl err \<Rightarrow> Inl err
      | Inr (result, ws) \<Rightarrow>
          (case rej commitSite of
             Some err \<Rightarrow> Inl err
           | None \<Rightarrow> Inr (result, apply_writes ws s)))"

text \<open>
  The SDK runs the transaction again after a failed attempt when the error is a
  \<^verbatim>\<open>FirebaseError\<close> whose code is \<^verbatim>\<open>aborted\<close>, \<^verbatim>\<open>failed-precondition\<close> or
  \<^verbatim>\<open>already-exists\<close>, or is not permanent, and attempts remain; the helper passes no
  options, so there are five attempts at most. An \<^verbatim>\<open>Error\<close> thrown by the body is not
  retried.
\<close>

fun isPermanentError :: "Code \<Rightarrow> bool" where
  "isPermanentError CANCELLED = False"
| "isPermanentError UNKNOWN = False"
| "isPermanentError DEADLINE_EXCEEDED = False"
| "isPermanentError RESOURCE_EXHAUSTED = False"
| "isPermanentError INTERNAL = False"
| "isPermanentError UNAVAILABLE = False"
| "isPermanentError UNAUTHENTICATED = False"
| "isPermanentError INVALID_ARGUMENT = True"
| "isPermanentError NOT_FOUND = True"
| "isPermanentError ALREADY_EXISTS = True"
| "isPermanentError PERMISSION_DENIED = True"
| "isPermanentError FAILED_PRECONDITION = True"
| "isPermanentError ABORTED = True"
| "isPermanentError OUT_OF_RANGE = True"
| "isPermanentError UNIMPLEMENTED = True"
| "isPermanentError DATA_LOSS = True"

fun isRetryableTransactionError :: "exn \<Rightarrow> bool" where
  "isRetryableTransactionError (Error m) = False"
| "isRetryableTransactionError (FirebaseError code m) =
     (code = ABORTED \<or> code = FAILED_PRECONDITION \<or> code = ALREADY_EXISTS \<or>
      \<not> isPermanentError code)"

definition maxAttempts :: nat where
  "maxAttempts = 5"

text \<open>
  \<open>runAttempts n rejs i\<close>: attempt number \<open>i\<close>, with \<open>n\<close> attempts remaining after it.
  Every attempt reads the database as the call found it.
\<close>

fun runAttempts ::
  "nat \<Rightarrow> (nat \<Rightarrow> nat \<Rightarrow> exn option) \<Rightarrow> nat \<Rightarrow> nat \<Rightarrow>
     ((nat \<Rightarrow> exn option) \<Rightarrow> db \<Rightarrow> exn + 'a \<times> tx_write list) \<Rightarrow> db \<Rightarrow> (exn + 'a) \<times> db" where
  "runAttempts 0 rejs i commitSite body s =
     (case attempt (rejs i) commitSite body s of
        Inl err \<Rightarrow> (Inl err, s)
      | Inr (result, s') \<Rightarrow> (Inr result, s'))"
| "runAttempts (Suc n) rejs i commitSite body s =
     (case attempt (rejs i) commitSite body s of
        Inl err \<Rightarrow>
          if isRetryableTransactionError err
          then runAttempts n rejs (Suc i) commitSite body s
          else (Inl err, s)
      | Inr (result, s') \<Rightarrow> (Inr result, s'))"

definition runTransaction ::
  "env \<Rightarrow> nat \<Rightarrow> ((nat \<Rightarrow> exn option) \<Rightarrow> db \<Rightarrow> exn + 'a \<times> tx_write list) \<Rightarrow> db \<Rightarrow>
     (exn + 'a) \<times> db" where
  "runTransaction e commitSite body s =
     runAttempts (maxAttempts - 1) (attempts e) 0 commitSite body s"

subsection \<open>borrowBook\<close>

definition borrowBody ::
  "env \<Rightarrow> string \<Rightarrow> User \<Rightarrow> (nat \<Rightarrow> exn option) \<Rightarrow> db \<Rightarrow> exn + string \<times> tx_write list" where
  "borrowBody e bId user rej s =
     (case doc BOOKS bId of
        Inl err \<Rightarrow> Inl err
      | Inr bookRef \<Rightarrow>
          (case txGet rej 0 (bookAt s bookRef) of
             Inl err \<Rightarrow> Inl err
           | Inr None \<Rightarrow> Inl (Error ''Buku tidak ditemukan.'')
           | Inr (Some bookData) \<Rightarrow>
               if status bookData = BORROWED then Inl (Error ''Buku sedang dipinjam.'')
               else
                 Inr (autoId e,
                   [UpdateBook bookRef BORROWED (now e),
                    SetTransaction (autoId e)
                      \<lparr>bookId = bId, userId = uid user, borrowDate = now e, returnDate = None,
                       loanStatus = TX_BORROWED, bookTitle = Some (title bookData),
                       userName = Some (name user)\<rparr>])))"

definition borrowBook :: "env \<Rightarrow> string \<Rightarrow> User \<Rightarrow> db \<Rightarrow> (exn + BorrowBookResponse) \<times> db" where
  "borrowBook e bId user s =
     (case runTransaction e 1 (borrowBody e bId user) s of
        (Inr result, s') \<Rightarrow>
          (Inr \<lparr>transactionId = result, message = ''Buku berhasil dipinjam!''\<rparr>, s')
      | (Inl error, s') \<Rightarrow>
          (Inl (Error (messageOr error ''Gagal meminjam buku. Silakan coba lagi.'')), s'))"

subsection \<open>returnBook\<close>

definition returnBody ::
  "env \<Rightarrow> string \<Rightarrow> (nat \<Rightarrow> exn option) \<Rightarrow> db \<Rightarrow> exn + unit \<times> tx_write list" where
  "returnBody e tId rej s =
     (case doc TRANSACTIONS tId of
        Inl err \<Rightarrow> Inl err
      | Inr transactionRef \<Rightarrow>
          (case txGet rej 0 (transactionAt s transactionRef) of
             Inl err \<Rightarrow> Inl err
           | Inr None \<Rightarrow> Inl (Error ''Transaksi tidak ditemukan.'')
           | Inr (Some transactionData) \<Rightarrow>
               if loanStatus transactionData = TX_RETURNED
               then Inl (Error ''Buku sudah dikembalikan sebelumnya.'')
               else
                 (case doc BOOKS (bookId transactionData) of
                    Inl err \<Rightarrow> Inl err
                  | Inr bookRef \<Rightarrow>
                      (case txGet rej 1 (bookAt s bookRef) of
                         Inl err \<Rightarrow> Inl err
                       | Inr None \<Rightarrow> Inl (Error ''Buku tidak ditemukan.'')
                       | Inr (Some bookData) \<Rightarrow>
                           Inr ((),
                             [UpdateBook bookRef AVAILABLE (now e),
                              UpdateTransaction transactionRef TX_RETURNED (now e)])))))"

definition returnBook :: "env \<Rightarrow> string \<Rightarrow> db \<Rightarrow> (exn + ReturnBookResponse) \<times> db" where
  "returnBook e tId s =
     (case runTransaction e 2 (returnBody e tId) s of
        (Inr u, s') \<Rightarrow>
          (Inr \<lparr>transactionId = tId, message = ''Buku berhasil dikembalikan!''\<rparr>, s')
      | (Inl error, s') \<Rightarrow>
          (Inl (Error (messageOr error ''Gagal mengembalikan buku. Silakan coba lagi.'')), s'))"

subsection \<open>Books: getBookById, addBook, deleteBook\<close>

text \<open>
  \<^verbatim>\<open>getBookById\<close> builds the reference and reads one document with \<^verbatim>\<open>getDoc\<close> (call
  site \<open>site\<close> of the caller); it replaces any failure of the two by its own error.
\<close>

definition getBookById :: "env \<Rightarrow> nat \<Rightarrow> string \<Rightarrow> db \<Rightarrow> exn + Book option" where
  "getBookById e site bId s =
     (case doc BOOKS bId of
        Inl err \<Rightarrow> Inl (Error ''Gagal mengambil detail buku. Silakan coba lagi.'')
      | Inr bookRef \<Rightarrow>
          (case rejects e site of
             Some err \<Rightarrow> Inl (Error ''Gagal mengambil detail buku. Silakan coba lagi.'')
           | None \<Rightarrow>
               (case bookAt s bookRef of
                  None \<Rightarrow> Inr None
                | Some data \<Rightarrow> Inr (Some (BookDoc.extend data \<lparr>ident = bId\<rparr>)))))"

text \<open>
  \<^verbatim>\<open>uploadImage\<close> fetches the picture, uploads it and asks for its download URL; the
  three awaited calls are one call site here, and any failure among them becomes the
  function's own error. The file name it is given only decides the path in the bucket.
\<close>

definition uploadImage :: "env \<Rightarrow> nat \<Rightarrow> string \<Rightarrow> exn + string" where
  "uploadImage e site uri =
     (case rejects e site of
        Some err \<Rightarrow> Inl (Error ''Gagal upload gambar. Silakan coba lagi.'')
      | None \<Rightarrow> Inr (downloadURL e))"

text \<open>\<^verbatim>\<open>deleteImage\<close> catches every failure of \<^verbatim>\<open>deleteObject\<close> and throws nothing.\<close>

definition deleteImage :: "env \<Rightarrow> nat \<Rightarrow> string \<Rightarrow> unit" where
  "deleteImage e site url = (case rejects e site of Some err \<Rightarrow> () | None \<Rightarrow> ())"

text \<open>
  An optional string that is \<^verbatim>\<open>undefined\<close> or empty is left out of the new document
  (\<^verbatim>\<open>x !== undefined && x !== ''\<close>).
\<close>

definition nonEmpty :: "string option \<Rightarrow> string option" where
  "nonEmpty x = (case x of None \<Rightarrow> None | Some v \<Rightarrow> if v = [] then None else Some v)"

definition addBook :: "env \<Rightarrow> BookData \<Rightarrow> string option \<Rightarrow> db \<Rightarrow> (exn + string) \<times> db" where
  "addBook e bookData coverImageUri s =
     (case (case nonEmpty coverImageUri of
              None \<Rightarrow> Inr []
            | Some uri \<Rightarrow> uploadImage e 0 uri) of
        Inl err \<Rightarrow> (Inl (Error ''Gagal menambah buku. Silakan coba lagi.''), s)
      | Inr cover \<Rightarrow>
          (case rejects e 1 of
             Some err \<Rightarrow> (Inl (Error ''Gagal menambah buku. Silakan coba lagi.''), s)
           | None \<Rightarrow>
               (Inr (autoId e),
                s\<lparr>books := (books s)(autoId e \<mapsto>
                     \<lparr>title = newTitle bookData, author = newAuthor bookData, coverUrl = cover,
                      status = AVAILABLE, description = nonEmpty (newDescription bookData),
                      isbn = nonEmpty (newIsbn bookData), createdAt = Some (now e),
                      updatedAt = Some (now e)\<rparr>)\<rparr>)))"

text \<open>
  \<^verbatim>\<open>deleteBook\<close>: call site 0 is the read of the book, 1 the deletion of its cover
  (only when \<^verbatim>\<open>book?.coverUrl\<close> is truthy), 2 \<^verbatim>\<open>deleteDoc\<close>. Every failure it
  catches is rethrown with one fixed message.
\<close>

definition deleteDoc :: "DocumentReference \<Rightarrow> db \<Rightarrow> db" where
  "deleteDoc r s =
     (case r of
        BookRef k \<Rightarrow> s\<lparr>books := (books s)(k := None)\<rparr>
      | TransactionRef k \<Rightarrow> s\<lparr>transactions := (transactions s)(k := None)\<rparr>
      | OtherRef p \<Rightarrow> s)"

definition deleteBook :: "env \<Rightarrow> string \<Rightarrow> db \<Rightarrow> (exn + unit) \<times> db" where
  "deleteBook e bId s =
     (case getBookById e 0 bId s of
        Inl err \<Rightarrow> (Inl (Error ''Gagal hapus buku. Silakan coba lagi.''), s)
      | Inr book \<Rightarrow>
          (let u = (case book of
                      None \<Rightarrow> ()
                    | Some b \<Rightarrow> if coverUrl b = [] then () else deleteImage e 1 (coverUrl b))
           in case doc BOOKS bId of
                Inl err \<Rightarrow> (Inl (Error ''Gagal hapus buku. Silakan coba lagi.''), s)
              | Inr bookRef \<Rightarrow>
                  (case rejects e 2 of
                     Some err \<Rightarrow> (Inl (Error ''Gagal hapus buku. Silakan coba lagi.''), s)
                   | None \<Rightarrow> (Inr (), deleteDoc bookRef s))))"

subsection \<open>hasUserBorrowedBook\<close>

text \<open>
  The query \<^verbatim>\<open>where userId == .., where bookId == .., where status == 'BORROWED'\<close> gives
  the ids of the matching transaction documents; the function answers whether there is
  one, and \<^verbatim>\<open>false\<close> when the query fails.
\<close>

definition queryTransactions :: "db \<Rightarrow> (TransactionDoc \<Rightarrow> bool) \<Rightarrow> string set" where
  "queryTransactions s p =
     {t \<in> dom (transactions s). case transactions s t of None \<Rightarrow> False | Some d \<Rightarrow> p d}"

definition hasUserBorrowedBook :: "env \<Rightarrow> string \<Rightarrow> string \<Rightarrow> db \<Rightarrow> bool" where
  "hasUserBorrowedBook e uId bId s =
     (case rejects e 0 of
        Some err \<Rightarrow> False
      | None \<Rightarrow>
          queryTransactions s
            (\<lambda>d. userId d = uId \<and> bookId d = bId \<and> loanStatus d = TX_BORROWED) \<noteq> {})"

subsection \<open>The invariant between a book and its loans\<close>

text \<open>
  A transaction references the book that its \<^verbatim>\<open>bookId\<close> names, the way \<^verbatim>\<open>returnBook\<close>
  looks the book up: through \<^verbatim>\<open>doc(db, COLLECTIONS.BOOKS, bookId)\<close>. For an id without a
  slash this is the book with that id.
\<close>

definition refersTo :: "string \<Rightarrow> string \<Rightarrow> bool" where
  "refersTo x b = (doc BOOKS x = Inr (BookRef b))"

text \<open>The transactions with status \<^verbatim>\<open>BORROWED\<close> that reference book \<open>b\<close>.\<close>

definition borrowedLoans :: "db \<Rightarrow> string \<Rightarrow> string set" where
  "borrowedLoans s b =
     queryTransactions s (\<lambda>d. refersTo (bookId d) b \<and> loanStatus d = TX_BORROWED)"

text \<open>
  The invariant as the data model words it: an existing book is \<^verbatim>\<open>BORROWED\<close> if and
  only if exactly one \<^verbatim>\<open>BORROWED\<close> transaction references it.
\<close>

definition book_loan_invariant :: "db \<Rightarrow> bool" where
  "book_loan_invariant s =
     (\<forall>b d. books s b = Some d \<longrightarrow> (status d = BORROWED) = (\<exists>!t. t \<in> borrowedLoans s b))"

text \<open>
  The stronger reading: a \<^verbatim>\<open>BORROWED\<close> book has exactly one \<^verbatim>\<open>BORROWED\<close>
  transaction, an \<^verbatim>\<open>AVAILABLE\<close> book has none.
\<close>

definition loans_consistent :: "db \<Rightarrow> bool" where
  "loans_consistent s =
     (\<forall>b d. books s b = Some d \<longrightarrow>
        (status d = BORROWED \<longrightarrow> (\<exists>!t. t \<in> borrowedLoans s b)) \<and>
        (status d = AVAILABLE \<longrightarrow> borrowedLoans s b = {}))"

text \<open>
  A generated id is new: no document has it and no transaction refers to it.
\<close>

definition unused_id :: "db \<Rightarrow> string \<Rightarrow> bool" where
  "unused_id s k =
     (books s k = None \<and> transactions s k = None \<and>
      (\<forall>t d. transactions s t = Some d \<longrightarrow> \<not> refersTo (bookId d) k))"

text \<open>One call of \<^verbatim>\<open>addBook\<close>, \<^verbatim>\<open>borrowBook\<close> or \<^verbatim>\<open>returnBook\<close>, whatever its outcome.\<close>

inductive loan_step :: "db \<Rightarrow> db \<Rightarrow> bool" where
  step_addBook:
    "unused_id s (autoId e) \<Longrightarrow> loan_step s (snd (addBook e bookData coverImageUri s))"
| step_borrowBook:
    "unused_id s (autoId e) \<Longrightarrow> loan_step s (snd (borrowBook e bId user s))"
| step_returnBook:
    "loan_step s (snd (returnBook e tId s))"

subsection \<open>Example data\<close>

text \<open>
  \<open>quiet\<close>: no call is rejected. \<open>failing\<close>: the call at one site is rejected every
  time. \<open>flaky\<close>: it is rejected in the first attempt of a transaction only.
\<close>

definition quiet :: "nat \<Rightarrow> string \<Rightarrow> env" where
  "quiet t k =
     \<lparr>now = t, autoId = k, downloadURL = [], rejects = (\<lambda>site. None),
      attempts = (\<lambda>i site. None)\<rparr>"

definition failing :: "nat \<Rightarrow> exn \<Rightarrow> env" where
  "failing site err =
     \<lparr>now = 7, autoId = ''t9'', downloadURL = [],
      rejects = (\<lambda>k. if k = site then Some err else None),
      attempts = (\<lambda>i k. if k = site then Some err else None)\<rparr>"


definition user1 :: User where
  "user1 = \<lparr>uid = ''u1'', email = ''u1@example.org'', role = member, name = ''Ani''\<rparr>"

definition user2 :: User where
  "user2 = \<lparr>uid = ''u2'', email = ''u2@example.org'', role = member, name = ''Budi''\<rparr>"

definition book1 :: "BookStatus \<Rightarrow> BookDoc" where
  "book1 st =
     \<lparr>title = ''Laskar Pelangi'', author = ''Andrea Hirata'', coverUrl = [], status = st,
      description = None, isbn = None, createdAt = Some 1, updatedAt = Some 1\<rparr>"

definition loan1 :: "string \<Rightarrow> TransactionStatus \<Rightarrow> nat option \<Rightarrow> TransactionDoc" where
  "loan1 b st r =
     \<lparr>bookId = b, userId = ''u1'', borrowDate = 2, returnDate = r, loanStatus = st,
      bookTitle = Some ''Laskar Pelangi'', userName = Some ''Ani''\<rparr>"

text \<open>Book \<open>b1\<close> with the given status and the transactions given.\<close>

definition library :: "BookStatus \<Rightarrow> (string \<rightharpoonup> TransactionDoc) \<Rightarrow> db" where
  "library st ts = \<lparr>books = [''b1'' \<mapsto> book1 st], transactions = ts\<rparr>"

section \<open>Properties\<close>

subsection \<open>Document references\<close>

text \<open>
  An id of the plain form is accepted and names the document with that id; the slash
  divides, so that other ids are refused or name another document.
\<close>

lemma splitSlash_plain:
  "CHR ''/'' \<notin> set k \<Longrightarrow> splitSlash cur k = [cur @ k]"
  by (induction k arbitrary: cur) auto

lemma hasDoubleSlash_plain:
  "CHR ''/'' \<notin> set k \<Longrightarrow> \<not> hasDoubleSlash k"
  by (induction k rule: hasDoubleSlash.induct) auto

lemma pathSegments_plain:
  "plainId k \<Longrightarrow> pathSegments k = [k]"
  by (simp add: plainId_def pathSegments_def splitSlash_plain)

lemma plainId_collections:
  "plainId BOOKS" "plainId TRANSACTIONS"
  by (simp_all add: plainId_def BOOKS_def TRANSACTIONS_def)

lemma doc_plain:
  assumes "plainId k"
  shows "doc BOOKS k = Inr (BookRef k)" and "doc TRANSACTIONS k = Inr (TransactionRef k)"
proof -
  have k: "\<not> hasDoubleSlash k" "pathSegments k = [k]"
    using assms by (simp_all add: hasDoubleSlash_plain pathSegments_plain plainId_def)
  have b: "BOOKS \<noteq> []" "\<not> hasDoubleSlash BOOKS" "pathSegments BOOKS = [BOOKS]"
    using plainId_collections(1) by (simp_all add: hasDoubleSlash_plain pathSegments_plain plainId_def)
  have t: "TRANSACTIONS \<noteq> []" "\<not> hasDoubleSlash TRANSACTIONS"
    "pathSegments TRANSACTIONS = [TRANSACTIONS]"
    using plainId_collections(2) by (simp_all add: hasDoubleSlash_plain pathSegments_plain plainId_def)
  show "doc BOOKS k = Inr (BookRef k)"
    by (simp add: doc_def k b)
  have "TRANSACTIONS \<noteq> BOOKS"
    by (simp add: BOOKS_def TRANSACTIONS_def)
  then show "doc TRANSACTIONS k = Inr (TransactionRef k)"
    by (simp add: doc_def k t)
qed

lemma showNat_digit:
  "n < 10 \<Longrightarrow> showNat n = [digitChar n]"
  by simp

lemma doc_empty:
  "doc BOOKS [] =
     Inl (FirebaseError INVALID_ARGUMENT
       ''Invalid document reference. Document references must have an even number of segments, but books has 1.'')"
proof -
  have b: "BOOKS \<noteq> []" "\<not> hasDoubleSlash BOOKS" "pathSegments BOOKS = [BOOKS]"
    using plainId_collections(1) by (simp_all add: hasDoubleSlash_plain pathSegments_plain plainId_def)
  have "pathSegments [] = []"
    by (simp add: pathSegments_def)
  then show ?thesis
    by (simp add: doc_def b digitChar_def) (simp add: BOOKS_def)
qed

lemma doc_two_segments:
  "doc BOOKS ''a/b'' =
     Inl (FirebaseError INVALID_ARGUMENT
       ''Invalid document reference. Document references must have an even number of segments, but books/a/b has 3.'')"
  by (simp add: doc_def pathSegments_def digitChar_def BOOKS_def)

lemma doc_leading_slash:
  "doc BOOKS ''/b1'' = Inr (BookRef ''b1'')"
  by (simp add: doc_def pathSegments_def digitChar_def BOOKS_def)

lemma doc_double_slash:
  "doc BOOKS ''a//b'' =
     Inl (FirebaseError INVALID_ARGUMENT ''Invalid segment (a//b). Paths must not contain // in them.'')"
  by (simp add: doc_def pathSegments_def digitChar_def BOOKS_def)

lemma doc_subcollection:
  "doc BOOKS ''a/b/c'' = Inr (OtherRef [''books'', ''a'', ''b'', ''c''])"
  by (simp add: doc_def pathSegments_def digitChar_def BOOKS_def)

lemma doc_error:
  assumes "doc c k = Inl err"
  shows "\<exists>m. err = FirebaseError INVALID_ARGUMENT m \<and> m \<noteq> []"
proof (cases "c = []")
  case True
  with assms show ?thesis by (simp add: doc_def) blast
next
  case ne: False
  show ?thesis
  proof (cases "hasDoubleSlash c")
    case True
    with ne assms show ?thesis by (simp add: doc_def) blast
  next
    case c: False
    show ?thesis
    proof (cases "hasDoubleSlash k")
      case True
      with ne c assms show ?thesis by (simp add: doc_def) blast
    next
      case k: False
      show ?thesis
      proof (cases "odd (length (pathSegments c @ pathSegments k))")
        case True
        with ne c k assms show ?thesis by (simp add: doc_def Let_def) blast
      next
        case False
        with ne c k assms show ?thesis
          by (simp add: doc_def Let_def split: list.splits if_splits)
      qed
    qed
  qed
qed

lemma doc_error_final:
  assumes "doc c k = Inl err"
  shows "\<not> isRetryableTransactionError err" and "messageOr err fallback = errorMessage err"
  using doc_error [OF assms] by (auto simp add: messageOr_def)

lemma refersTo_unique:
  "refersTo x b \<Longrightarrow> refersTo x b' \<Longrightarrow> b = b'"
  by (simp add: refersTo_def)

lemma refersTo_plain:
  "plainId x \<Longrightarrow> refersTo x b = (b = x)"
  by (auto simp add: refersTo_def doc_plain)

subsection \<open>The attempts of a transaction\<close>

text \<open>
  The first attempt decides when it commits or ends with an error that is not retried;
  whatever happens, the outcome is that of one of the five attempts.
\<close>

lemma runAttempts_commit:
  "attempt (rejs i) c body s = Inr (r, s') \<Longrightarrow> runAttempts n rejs i c body s = (Inr r, s')"
  by (cases n) simp_all

lemma runAttempts_final:
  "attempt (rejs i) c body s = Inl err \<Longrightarrow> \<not> isRetryableTransactionError err \<Longrightarrow>
   runAttempts n rejs i c body s = (Inl err, s)"
  by (cases n) simp_all


lemma runAttempts_outcome:
  "\<exists>j. i \<le> j \<and> j \<le> i + n \<and>
     (case attempt (rejs j) c body s of
        Inl err \<Rightarrow> runAttempts n rejs i c body s = (Inl err, s)
      | Inr (r, s') \<Rightarrow> runAttempts n rejs i c body s = (Inr r, s'))"
proof (induction n arbitrary: i)
  case 0
  show ?case
    by (rule exI [of _ i]) (simp split: sum.splits prod.splits)
next
  case (Suc n)
  show ?case
  proof (cases "attempt (rejs i) c body s")
    case (Inr p)
    then show ?thesis
      by (intro exI [of _ i]) (simp split: prod.splits)
  next
    case (Inl err)
    show ?thesis
    proof (cases "isRetryableTransactionError err")
      case False
      with Inl show ?thesis
        by (intro exI [of _ i]) simp
    next
      case True
      from Suc.IH [of "Suc i"] obtain j where j: "Suc i \<le> j" "j \<le> Suc i + n"
        and out: "case attempt (rejs j) c body s of
            Inl err \<Rightarrow> runAttempts n rejs (Suc i) c body s = (Inl err, s)
          | Inr (r, s') \<Rightarrow> runAttempts n rejs (Suc i) c body s = (Inr r, s')"
        by blast
      from Inl True have "runAttempts (Suc n) rejs i c body s = runAttempts n rejs (Suc i) c body s"
        by simp
      with j out show ?thesis
        by (intro exI [of _ j]) (simp split: sum.splits prod.splits)
    qed
  qed
qed


subsection \<open>What the operations compute\<close>

text \<open>
  One attempt of each transaction unfolded, case by case in the order of the source, and
  the outcomes of the operations that follow from it.
\<close>

lemma borrowAttempt_unfold:
  "attempt rej (Suc 0) (borrowBody e bId user) s =
     (case doc BOOKS bId of
        Inl err \<Rightarrow> Inl err
      | Inr bookRef \<Rightarrow>
          (case rej 0 of
             Some err \<Rightarrow> Inl err
           | None \<Rightarrow>
               (case bookAt s bookRef of
                  None \<Rightarrow> Inl (Error ''Buku tidak ditemukan.'')
                | Some d \<Rightarrow>
                    if status d = BORROWED then Inl (Error ''Buku sedang dipinjam.'')
                    else
                      (case rej 1 of
                         Some err \<Rightarrow> Inl err
                       | None \<Rightarrow>
                           Inr (autoId e,
                             apply_writes
                               [UpdateBook bookRef BORROWED (now e),
                                SetTransaction (autoId e)
                                  \<lparr>bookId = bId, userId = uid user, borrowDate = now e,
                                   returnDate = None, loanStatus = TX_BORROWED,
                                   bookTitle = Some (title d), userName = Some (name user)\<rparr>] s)))))"
  by (simp add: attempt_def borrowBody_def txGet_def split: sum.splits option.splits)

lemma returnAttempt_unfold:
  "attempt rej 2 (returnBody e tId) s =
     (case doc TRANSACTIONS tId of
        Inl err \<Rightarrow> Inl err
      | Inr transactionRef \<Rightarrow>
          (case rej 0 of
             Some err \<Rightarrow> Inl err
           | None \<Rightarrow>
               (case transactionAt s transactionRef of
                  None \<Rightarrow> Inl (Error ''Transaksi tidak ditemukan.'')
                | Some td \<Rightarrow>
                    if loanStatus td = TX_RETURNED
                    then Inl (Error ''Buku sudah dikembalikan sebelumnya.'')
                    else
                      (case doc BOOKS (bookId td) of
                         Inl err \<Rightarrow> Inl err
                       | Inr bookRef \<Rightarrow>
                           (case rej 1 of
                              Some err \<Rightarrow> Inl err
                            | None \<Rightarrow>
                                (case bookAt s bookRef of
                                   None \<Rightarrow> Inl (Error ''Buku tidak ditemukan.'')
                                 | Some bd \<Rightarrow>
                                     (case rej 2 of
                                        Some err \<Rightarrow> Inl err
                                      | None \<Rightarrow>
                                          Inr ((),
                                            apply_writes
                                              [UpdateBook bookRef AVAILABLE (now e),
                                               UpdateTransaction transactionRef TX_RETURNED (now e)]
                                              s))))))))"
  by (simp add: attempt_def returnBody_def txGet_def split: sum.splits option.splits)

lemma borrowAttempt_commit:
  assumes "attempt rej (Suc 0) (borrowBody e bId user) s = Inr (r, s')"
  shows "\<exists>k d. doc BOOKS bId = Inr (BookRef k) \<and> books s k = Some d \<and> status d \<noteq> BORROWED \<and>
           rej 0 = None \<and> rej 1 = None \<and> r = autoId e \<and>
           s' = s\<lparr>books := (books s)(k \<mapsto> d\<lparr>status := BORROWED, updatedAt := Some (now e)\<rparr>),
                  transactions := (transactions s)(autoId e \<mapsto>
                    \<lparr>bookId = bId, userId = uid user, borrowDate = now e, returnDate = None,
                     loanStatus = TX_BORROWED, bookTitle = Some (title d),
                     userName = Some (name user)\<rparr>)\<rparr>"
  using assms
  by (auto simp add: borrowAttempt_unfold bookAt_def
      split: sum.splits option.splits if_splits DocumentReference.splits)

lemma returnAttempt_commit:
  assumes "attempt rej 2 (returnBody e tId) s = Inr (r, s')"
  shows "\<exists>t td k bd. doc TRANSACTIONS tId = Inr (TransactionRef t) \<and> transactions s t = Some td \<and>
           loanStatus td \<noteq> TX_RETURNED \<and> doc BOOKS (bookId td) = Inr (BookRef k) \<and>
           books s k = Some bd \<and> rej 0 = None \<and> rej 1 = None \<and> rej 2 = None \<and>
           s' = s\<lparr>books := (books s)(k \<mapsto> bd\<lparr>status := AVAILABLE, updatedAt := Some (now e)\<rparr>),
                  transactions := (transactions s)(t \<mapsto>
                    td\<lparr>loanStatus := TX_RETURNED, returnDate := Some (now e)\<rparr>)\<rparr>"
  using assms
  by (auto simp add: returnAttempt_unfold bookAt_def transactionAt_def
      split: sum.splits option.splits if_splits DocumentReference.splits)



lemma borrowBook_first_commit:
  assumes "attempt (attempts e 0) 1 (borrowBody e bId user) s = Inr (r, s')"
  shows "borrowBook e bId user s =
    (Inr \<lparr>transactionId = r, message = ''Buku berhasil dipinjam!''\<rparr>, s')"
  using runAttempts_commit [where rejs = "attempts e" and i = 0 and n = 4, OF assms] by (simp add: borrowBook_def runTransaction_def maxAttempts_def)

lemma borrowBook_first_error:
  assumes "attempt (attempts e 0) 1 (borrowBody e bId user) s = Inl err"
    and "\<not> isRetryableTransactionError err"
  shows "borrowBook e bId user s =
    (Inl (Error (messageOr err ''Gagal meminjam buku. Silakan coba lagi.'')), s)"
  using runAttempts_final [where rejs = "attempts e" and i = 0 and n = 4, OF assms] by (simp add: borrowBook_def runTransaction_def maxAttempts_def)

lemma returnBook_first_commit:
  assumes "attempt (attempts e 0) 2 (returnBody e tId) s = Inr (r, s')"
  shows "returnBook e tId s =
    (Inr \<lparr>transactionId = tId, message = ''Buku berhasil dikembalikan!''\<rparr>, s')"
  using runAttempts_commit [where rejs = "attempts e" and i = 0 and n = 4, OF assms] by (simp add: returnBook_def runTransaction_def maxAttempts_def)

lemma returnBook_first_error:
  assumes "attempt (attempts e 0) 2 (returnBody e tId) s = Inl err"
    and "\<not> isRetryableTransactionError err"
  shows "returnBook e tId s =
    (Inl (Error (messageOr err ''Gagal mengembalikan buku. Silakan coba lagi.'')), s)"
  using runAttempts_final [where rejs = "attempts e" and i = 0 and n = 4, OF assms] by (simp add: returnBook_def runTransaction_def maxAttempts_def)



lemma borrowBook_outcome:
  "\<exists>j<5.
     (case attempt (attempts e j) 1 (borrowBody e bId user) s of
        Inl err \<Rightarrow>
          borrowBook e bId user s =
            (Inl (Error (messageOr err ''Gagal meminjam buku. Silakan coba lagi.'')), s)
      | Inr (r, s') \<Rightarrow>
          borrowBook e bId user s =
            (Inr \<lparr>transactionId = r, message = ''Buku berhasil dipinjam!''\<rparr>, s'))"
proof -
  from runAttempts_outcome [of 0 4 "attempts e" 1 "borrowBody e bId user" s]
  obtain j where j: "j \<le> 4"
    and out: "case attempt (attempts e j) 1 (borrowBody e bId user) s of
        Inl err \<Rightarrow> runAttempts 4 (attempts e) 0 1 (borrowBody e bId user) s = (Inl err, s)
      | Inr (r, s') \<Rightarrow> runAttempts 4 (attempts e) 0 1 (borrowBody e bId user) s = (Inr r, s')"
    by auto
  from j have "j < 5" by simp
  moreover from out have "case attempt (attempts e j) 1 (borrowBody e bId user) s of
        Inl err \<Rightarrow>
          borrowBook e bId user s =
            (Inl (Error (messageOr err ''Gagal meminjam buku. Silakan coba lagi.'')), s)
      | Inr (r, s') \<Rightarrow>
          borrowBook e bId user s =
            (Inr \<lparr>transactionId = r, message = ''Buku berhasil dipinjam!''\<rparr>, s')"
    by (simp add: borrowBook_def runTransaction_def maxAttempts_def split: sum.splits prod.splits)
  ultimately show ?thesis by blast
qed

lemma returnBook_outcome:
  "\<exists>j<5.
     (case attempt (attempts e j) 2 (returnBody e tId) s of
        Inl err \<Rightarrow>
          returnBook e tId s =
            (Inl (Error (messageOr err ''Gagal mengembalikan buku. Silakan coba lagi.'')), s)
      | Inr (r, s') \<Rightarrow>
          returnBook e tId s =
            (Inr \<lparr>transactionId = tId, message = ''Buku berhasil dikembalikan!''\<rparr>, s'))"
proof -
  from runAttempts_outcome [of 0 4 "attempts e" 2 "returnBody e tId" s]
  obtain j where j: "j \<le> 4"
    and out: "case attempt (attempts e j) 2 (returnBody e tId) s of
        Inl err \<Rightarrow> runAttempts 4 (attempts e) 0 2 (returnBody e tId) s = (Inl err, s)
      | Inr (r, s') \<Rightarrow> runAttempts 4 (attempts e) 0 2 (returnBody e tId) s = (Inr r, s')"
    by auto
  from j have "j < 5" by simp
  moreover from out have "case attempt (attempts e j) 2 (returnBody e tId) s of
        Inl err \<Rightarrow>
          returnBook e tId s =
            (Inl (Error (messageOr err ''Gagal mengembalikan buku. Silakan coba lagi.'')), s)
      | Inr (r, s') \<Rightarrow>
          returnBook e tId s =
            (Inr \<lparr>transactionId = tId, message = ''Buku berhasil dikembalikan!''\<rparr>, s')"
    by (simp add: returnBook_def runTransaction_def maxAttempts_def split: sum.splits prod.splits)
  ultimately show ?thesis by blast
qed



lemma borrowBook_state:
  "snd (borrowBook e bId user s) = s \<or>
   (\<exists>k d. refersTo bId k \<and> books s k = Some d \<and> status d \<noteq> BORROWED \<and>
      snd (borrowBook e bId user s) =
        s\<lparr>books := (books s)(k \<mapsto> d\<lparr>status := BORROWED, updatedAt := Some (now e)\<rparr>),
          transactions := (transactions s)(autoId e \<mapsto>
            \<lparr>bookId = bId, userId = uid user, borrowDate = now e, returnDate = None,
             loanStatus = TX_BORROWED, bookTitle = Some (title d),
             userName = Some (name user)\<rparr>)\<rparr>)"
proof -
  from borrowBook_outcome [of e bId user s] obtain j where
    out: "case attempt (attempts e j) (Suc 0) (borrowBody e bId user) s of
        Inl err \<Rightarrow>
          borrowBook e bId user s =
            (Inl (Error (messageOr err ''Gagal meminjam buku. Silakan coba lagi.'')), s)
      | Inr (r, s') \<Rightarrow>
          borrowBook e bId user s =
            (Inr \<lparr>transactionId = r, message = ''Buku berhasil dipinjam!''\<rparr>, s')"
    by auto
  show ?thesis
  proof (cases "attempt (attempts e j) (Suc 0) (borrowBody e bId user) s")
    case (Inl err)
    with out show ?thesis by simp
  next
    case (Inr p)
    obtain r s' where p: "p = (r, s')" by (cases p)
    from borrowAttempt_commit [OF Inr [unfolded p]] out Inr p show ?thesis
      by (auto simp add: refersTo_def)
  qed
qed

lemma returnBook_state:
  "snd (returnBook e tId s) = s \<or>
   (\<exists>t td k bd. transactions s t = Some td \<and> loanStatus td \<noteq> TX_RETURNED \<and>
      refersTo (bookId td) k \<and> books s k = Some bd \<and>
      snd (returnBook e tId s) =
        s\<lparr>books := (books s)(k \<mapsto> bd\<lparr>status := AVAILABLE, updatedAt := Some (now e)\<rparr>),
          transactions := (transactions s)(t \<mapsto>
            td\<lparr>loanStatus := TX_RETURNED, returnDate := Some (now e)\<rparr>)\<rparr>)"
proof -
  from returnBook_outcome [of e tId s] obtain j where
    out: "case attempt (attempts e j) 2 (returnBody e tId) s of
        Inl err \<Rightarrow>
          returnBook e tId s =
            (Inl (Error (messageOr err ''Gagal mengembalikan buku. Silakan coba lagi.'')), s)
      | Inr (r, s') \<Rightarrow>
          returnBook e tId s =
            (Inr \<lparr>transactionId = tId, message = ''Buku berhasil dikembalikan!''\<rparr>, s')"
    by auto
  show ?thesis
  proof (cases "attempt (attempts e j) 2 (returnBody e tId) s")
    case (Inl err)
    with out show ?thesis by simp
  next
    case (Inr p)
    obtain r s' where p: "p = (r, s')" by (cases p)
    from returnAttempt_commit [OF Inr [unfolded p]] out Inr p show ?thesis
      by (auto simp add: refersTo_def)
  qed
qed

lemma addBook_unfold:
  "addBook e bookData coverImageUri s =
     (if (nonEmpty coverImageUri \<noteq> None \<and> rejects e 0 \<noteq> None) \<or> rejects e 1 \<noteq> None
      then (Inl (Error ''Gagal menambah buku. Silakan coba lagi.''), s)
      else
        (Inr (autoId e),
         s\<lparr>books := (books s)(autoId e \<mapsto>
              \<lparr>title = newTitle bookData, author = newAuthor bookData,
               coverUrl = (if nonEmpty coverImageUri = None then [] else downloadURL e),
               status = AVAILABLE, description = nonEmpty (newDescription bookData),
               isbn = nonEmpty (newIsbn bookData), createdAt = Some (now e),
               updatedAt = Some (now e)\<rparr>)\<rparr>))"
  by (auto simp add: addBook_def uploadImage_def split: option.splits)

lemma addBook_state:
  "snd (addBook e bookData coverImageUri s) = s \<or>
   (\<exists>d. status d = AVAILABLE \<and>
        snd (addBook e bookData coverImageUri s) = s\<lparr>books := (books s)(autoId e \<mapsto> d)\<rparr>)"
proof (cases "(nonEmpty coverImageUri \<noteq> None \<and> rejects e 0 \<noteq> None) \<or> rejects e 1 \<noteq> None")
  case True
  then have "snd (addBook e bookData coverImageUri s) = s"
    by (simp only: addBook_unfold if_True snd_conv)
  then show ?thesis ..
next
  case False
  then have "snd (addBook e bookData coverImageUri s) =
      s\<lparr>books := (books s)(autoId e \<mapsto>
              \<lparr>title = newTitle bookData, author = newAuthor bookData,
               coverUrl = (if nonEmpty coverImageUri = None then [] else downloadURL e),
               status = AVAILABLE, description = nonEmpty (newDescription bookData),
               isbn = nonEmpty (newIsbn bookData), createdAt = Some (now e),
               updatedAt = Some (now e)\<rparr>)\<rparr>"
    by (simp only: addBook_unfold if_False snd_conv)
  moreover have "status \<lparr>title = newTitle bookData, author = newAuthor bookData,
               coverUrl = (if nonEmpty coverImageUri = None then [] else downloadURL e),
               status = AVAILABLE, description = nonEmpty (newDescription bookData),
               isbn = nonEmpty (newIsbn bookData), createdAt = Some (now e),
               updatedAt = Some (now e)\<rparr> = AVAILABLE"
    by simp
  ultimately show ?thesis by blast
qed

lemma deleteBook_plain:
  assumes "plainId bId"
  shows "deleteBook e bId s =
     (if rejects e 0 \<noteq> None \<or> rejects e 2 \<noteq> None
      then (Inl (Error ''Gagal hapus buku. Silakan coba lagi.''), s)
      else (Inr (), s\<lparr>books := (books s)(bId := None)\<rparr>))"
  by (auto simp add: deleteBook_def getBookById_def deleteDoc_def bookAt_def Let_def
      doc_plain [OF assms] split: option.splits)

subsection \<open>Borrowing\<close>

text \<open>
  C6, as stated. The empty string refers to no existing book, and borrowing it does not
  fail with the not-found error: \<^verbatim>\<open>doc\<close> refuses the id before anything is read, and
  the caller gets the SDK's message.
\<close>

theorem borrowBook_empty_id_counterexample:
  "books (library AVAILABLE Map.empty) [] = None \<and>
   borrowBook (quiet 5 ''t1'') [] user1 (library AVAILABLE Map.empty) =
     (Inl (Error ''Invalid document reference. Document references must have an even number of segments, but books has 1.''),
      library AVAILABLE Map.empty)"
proof -
  have "attempt (attempts (quiet 5 ''t1'') 0) 1 (borrowBody (quiet 5 ''t1'') [] user1)
      (library AVAILABLE Map.empty) =
    Inl (FirebaseError INVALID_ARGUMENT
      ''Invalid document reference. Document references must have an even number of segments, but books has 1.'')"
    by (simp add: borrowAttempt_unfold doc_empty)
  from borrowBook_first_error [OF this] show ?thesis
    by (simp add: messageOr_def library_def)
qed

text \<open>
  C6, amended. For every book id that \<^verbatim>\<open>doc\<close> accepts and under which no book document
  exists, borrowing fails with the not-found error (\<^verbatim>\<open>'Buku tidak ditemukan.'\<close>) when
  the read of the book reaches the store; in particular for every id of the plain form
  (not empty, no slash) without a book. For a book id that \<^verbatim>\<open>doc\<close> refuses, borrowing
  fails with the message of that refusal. In both cases the whole database is as it was:
  no book is modified and no transaction is created.
\<close>

theorem borrowBook_missing_book:
  "(doc BOOKS bId = Inr bookRef \<and> bookAt s bookRef = None \<and> attempts e 0 0 = None \<longrightarrow>
      borrowBook e bId user s = (Inl (Error ''Buku tidak ditemukan.''), s)) \<and>
   (plainId bId \<and> books s bId = None \<and> attempts e 0 0 = None \<longrightarrow>
      borrowBook e bId user s = (Inl (Error ''Buku tidak ditemukan.''), s)) \<and>
   (doc BOOKS bId = Inl err \<longrightarrow>
      borrowBook e bId user s = (Inl (Error (errorMessage err)), s))"
proof (intro conjI impI)
  assume a: "doc BOOKS bId = Inr bookRef \<and> bookAt s bookRef = None \<and> attempts e 0 0 = None"
  then have "attempt (attempts e 0) 1 (borrowBody e bId user) s = Inl (Error ''Buku tidak ditemukan.'')"
    by (simp add: borrowAttempt_unfold)
  from borrowBook_first_error [OF this] show "borrowBook e bId user s = (Inl (Error ''Buku tidak ditemukan.''), s)"
    by (simp add: messageOr_def)
next
  assume a: "plainId bId \<and> books s bId = None \<and> attempts e 0 0 = None"
  then have "attempt (attempts e 0) 1 (borrowBody e bId user) s = Inl (Error ''Buku tidak ditemukan.'')"
    by (simp add: borrowAttempt_unfold doc_plain bookAt_def)
  from borrowBook_first_error [OF this] show "borrowBook e bId user s = (Inl (Error ''Buku tidak ditemukan.''), s)"
    by (simp add: messageOr_def)
next
  assume a: "doc BOOKS bId = Inl err"
  then have "attempt (attempts e 0) 1 (borrowBody e bId user) s = Inl err"
    by (simp add: borrowAttempt_unfold)
  from borrowBook_first_error [OF this doc_error_final(1) [OF a]] doc_error_final(2) [OF a]
  show "borrowBook e bId user s = (Inl (Error (errorMessage err)), s)"
    by simp
qed

theorem borrowBook_missing_book_witness:
  "(plainId ''nonexistent-book'' \<and>
    books (library AVAILABLE Map.empty) ''nonexistent-book'' = None \<and>
    attempts (quiet 5 ''t1'') 0 0 = None) \<and>
   borrowBook (quiet 5 ''t1'') ''nonexistent-book'' user1 (library AVAILABLE Map.empty) =
     (Inl (Error ''Buku tidak ditemukan.''), library AVAILABLE Map.empty) \<and>
   doc BOOKS ''a/b'' =
     Inl (FirebaseError INVALID_ARGUMENT
       ''Invalid document reference. Document references must have an even number of segments, but books/a/b has 3.'') \<and>
   borrowBook (quiet 5 ''t1'') ''a/b'' user1 (library AVAILABLE Map.empty) =
     (Inl (Error ''Invalid document reference. Document references must have an even number of segments, but books/a/b has 3.''),
      library AVAILABLE Map.empty)"
proof -
  have d: "doc BOOKS ''a/b'' =
     Inl (FirebaseError INVALID_ARGUMENT
       ''Invalid document reference. Document references must have an even number of segments, but books/a/b has 3.'')"
    by (simp add: doc_def pathSegments_def digitChar_def BOOKS_def)
  have p: "plainId ''nonexistent-book''"
    by (simp add: plainId_def)
  from borrowBook_missing_book [where bId = "''nonexistent-book''" and s = "library AVAILABLE Map.empty"
      and e = "quiet 5 ''t1''" and user = user1]
    borrowBook_missing_book [where bId = "''a/b''" and s = "library AVAILABLE Map.empty"
      and e = "quiet 5 ''t1''" and user = user1 and err = "FirebaseError INVALID_ARGUMENT
       ''Invalid document reference. Document references must have an even number of segments, but books/a/b has 3.''"]
    d p
  show ?thesis
    by (simp add: library_def quiet_def)
qed

text \<open>
  C2. Borrowing a book whose status is \<^verbatim>\<open>BORROWED\<close> fails with the conflict error
  (\<^verbatim>\<open>'Buku sedang dipinjam.'\<close>) and leaves the database unchanged. Hence, for a book
  that starts \<^verbatim>\<open>AVAILABLE\<close>, of two calls that the store runs one after the other
  (whichever of the two comes first, for any two borrowers) the first succeeds and the
  second fails with the conflict error, changing nothing: never two successes.
  The book is given by its document id, and the store answers the calls of the first
  attempt.
\<close>

theorem borrowBook_conflict:
  "(plainId bId \<and> books s bId = Some d \<and> status d = BORROWED \<and> attempts e 0 0 = None \<longrightarrow>
      borrowBook e bId user s = (Inl (Error ''Buku sedang dipinjam.''), s)) \<and>
   (plainId b0 \<and> books s0 b0 = Some d0 \<and> status d0 = AVAILABLE \<and>
    attempts e1 0 0 = None \<and> attempts e1 0 1 = None \<and> attempts e2 0 0 = None \<longrightarrow>
      (\<exists>r s1. borrowBook e1 b0 u1 s0 = (Inr r, s1) \<and>
              borrowBook e2 b0 u2 s1 = (Inl (Error ''Buku sedang dipinjam.''), s1)))"
proof (intro conjI impI)
  assume "plainId bId \<and> books s bId = Some d \<and> status d = BORROWED \<and> attempts e 0 0 = None"
  then have "attempt (attempts e 0) 1 (borrowBody e bId user) s = Inl (Error ''Buku sedang dipinjam.'')"
    by (simp add: borrowAttempt_unfold doc_plain bookAt_def)
  from borrowBook_first_error [OF this]
  show "borrowBook e bId user s = (Inl (Error ''Buku sedang dipinjam.''), s)"
    by (simp add: messageOr_def)
next
  assume a: "plainId b0 \<and> books s0 b0 = Some d0 \<and> status d0 = AVAILABLE \<and>
    attempts e1 0 0 = None \<and> attempts e1 0 1 = None \<and> attempts e2 0 0 = None"
  define s1 where "s1 = s0\<lparr>books := (books s0)(b0 \<mapsto> d0\<lparr>status := BORROWED, updatedAt := Some (now e1)\<rparr>),
      transactions := (transactions s0)(autoId e1 \<mapsto>
        \<lparr>bookId = b0, userId = uid u1, borrowDate = now e1, returnDate = None,
         loanStatus = TX_BORROWED, bookTitle = Some (title d0), userName = Some (name u1)\<rparr>)\<rparr>"
  from a have "attempt (attempts e1 0) 1 (borrowBody e1 b0 u1) s0 = Inr (autoId e1, s1)"
    by (simp add: borrowAttempt_unfold doc_plain bookAt_def s1_def)
  from borrowBook_first_commit [OF this]
  have first: "borrowBook e1 b0 u1 s0 =
      (Inr \<lparr>transactionId = autoId e1, message = ''Buku berhasil dipinjam!''\<rparr>, s1)" .
  from a have "attempt (attempts e2 0) 1 (borrowBody e2 b0 u2) s1 = Inl (Error ''Buku sedang dipinjam.'')"
    by (simp add: borrowAttempt_unfold doc_plain bookAt_def s1_def)
  from borrowBook_first_error [OF this]
  have "borrowBook e2 b0 u2 s1 = (Inl (Error ''Buku sedang dipinjam.''), s1)"
    by (simp add: messageOr_def)
  with first show "\<exists>r s1. borrowBook e1 b0 u1 s0 = (Inr r, s1) \<and>
      borrowBook e2 b0 u2 s1 = (Inl (Error ''Buku sedang dipinjam.''), s1)"
    by blast
qed

theorem borrowBook_conflict_witness:
  "(plainId ''b1'' \<and>
    books (library BORROWED [''t1'' \<mapsto> loan1 ''b1'' TX_BORROWED None]) ''b1'' = Some (book1 BORROWED) \<and>
    status (book1 BORROWED) = BORROWED \<and> attempts (quiet 5 ''t2'') 0 0 = None) \<and>
   borrowBook (quiet 5 ''t2'') ''b1'' user2 (library BORROWED [''t1'' \<mapsto> loan1 ''b1'' TX_BORROWED None]) =
     (Inl (Error ''Buku sedang dipinjam.''), library BORROWED [''t1'' \<mapsto> loan1 ''b1'' TX_BORROWED None]) \<and>
   (books (library AVAILABLE Map.empty) ''b1'' = Some (book1 AVAILABLE) \<and>
    status (book1 AVAILABLE) = AVAILABLE \<and>
    attempts (quiet 5 ''t1'') 0 0 = None \<and> attempts (quiet 5 ''t1'') 0 1 = None \<and>
    attempts (quiet 6 ''t2'') 0 0 = None) \<and>
   (\<exists>r s1. borrowBook (quiet 5 ''t1'') ''b1'' user1 (library AVAILABLE Map.empty) = (Inr r, s1) \<and>
      borrowBook (quiet 6 ''t2'') ''b1'' user2 s1 = (Inl (Error ''Buku sedang dipinjam.''), s1))"
  using borrowBook_conflict [where s = "library BORROWED [''t1'' \<mapsto> loan1 ''b1'' TX_BORROWED None]"
      and bId = "''b1''" and d = "book1 BORROWED" and e = "quiet 5 ''t2''" and user = user2
      and ?s0.0 = "library AVAILABLE Map.empty" and ?b0.0 = "''b1''" and ?d0.0 = "book1 AVAILABLE"
      and ?e1.0 = "quiet 5 ''t1''" and ?e2.0 = "quiet 6 ''t2''" and ?u1.0 = user1 and ?u2.0 = user2]
  by (simp add: library_def quiet_def book1_def plainId_def)

text \<open>
  C5. A successful borrow of an existing \<^verbatim>\<open>AVAILABLE\<close> book returns the id of the new
  transaction and changes the database in exactly two places: the book gets status
  \<^verbatim>\<open>BORROWED\<close> and a new \<^verbatim>\<open>updatedAt\<close>, and one transaction is created under the
  generated id, with status \<^verbatim>\<open>BORROWED\<close>, \<^verbatim>\<open>returnDate\<close> null, \<^verbatim>\<open>borrowDate\<close>
  the server time, and copies of the book's title and the borrower's name. Every other
  document is as before.
\<close>

theorem borrowBook_success:
  assumes "plainId bId" and "books s bId = Some d" and "status d = AVAILABLE"
    and "attempts e 0 0 = None" and "attempts e 0 1 = None"
    and "transactions s (autoId e) = None"
  shows "borrowBook e bId user s =
           (Inr \<lparr>transactionId = autoId e, message = ''Buku berhasil dipinjam!''\<rparr>,
            s\<lparr>books := (books s)(bId \<mapsto> d\<lparr>status := BORROWED, updatedAt := Some (now e)\<rparr>),
              transactions := (transactions s)(autoId e \<mapsto>
                \<lparr>bookId = bId, userId = uid user, borrowDate = now e, returnDate = None,
                 loanStatus = TX_BORROWED, bookTitle = Some (title d),
                 userName = Some (name user)\<rparr>)\<rparr>) \<and>
         dom (transactions (snd (borrowBook e bId user s))) - dom (transactions s) = {autoId e}"
proof -
  from assms have "attempt (attempts e 0) 1 (borrowBody e bId user) s =
      Inr (autoId e,
        s\<lparr>books := (books s)(bId \<mapsto> d\<lparr>status := BORROWED, updatedAt := Some (now e)\<rparr>),
          transactions := (transactions s)(autoId e \<mapsto>
            \<lparr>bookId = bId, userId = uid user, borrowDate = now e, returnDate = None,
             loanStatus = TX_BORROWED, bookTitle = Some (title d),
             userName = Some (name user)\<rparr>)\<rparr>)"
    by (simp add: borrowAttempt_unfold doc_plain bookAt_def)
  from borrowBook_first_commit [OF this] assms(6) show ?thesis
    by auto
qed

theorem borrowBook_success_witness:
  "plainId ''b1'' \<and>
   books (library AVAILABLE Map.empty) ''b1'' = Some (book1 AVAILABLE) \<and>
   status (book1 AVAILABLE) = AVAILABLE \<and>
   attempts (quiet 5 ''t1'') 0 0 = None \<and> attempts (quiet 5 ''t1'') 0 1 = None \<and>
   transactions (library AVAILABLE Map.empty) (autoId (quiet 5 ''t1'')) = None \<and>
   borrowBook (quiet 5 ''t1'') ''b1'' user1 (library AVAILABLE Map.empty) =
     (Inr \<lparr>transactionId = ''t1'', message = ''Buku berhasil dipinjam!''\<rparr>,
      \<lparr>books = [''b1'' \<mapsto> (book1 BORROWED)\<lparr>updatedAt := Some 5\<rparr>],
       transactions = [''t1'' \<mapsto>
         \<lparr>bookId = ''b1'', userId = ''u1'', borrowDate = 5, returnDate = None,
          loanStatus = TX_BORROWED, bookTitle = Some ''Laskar Pelangi'',
          userName = Some ''Ani''\<rparr>]\<rparr>)"
  using borrowBook_success [of "''b1''" "library AVAILABLE Map.empty" "book1 AVAILABLE"
      "quiet 5 ''t1''" user1]
  by (simp add: library_def quiet_def book1_def user1_def plainId_def)

subsection \<open>Returning\<close>

text \<open>
  C7. Returning a \<^verbatim>\<open>BORROWED\<close> transaction whose book document no longer exists
  fails and leaves the database unchanged, the transaction included, whatever the store
  does; when both reads reach the store, the failure is the not-found error
  (\<^verbatim>\<open>'Buku tidak ditemukan.'\<close>).
\<close>

theorem returnBook_book_missing:
  assumes "plainId tId" and "transactions s tId = Some td" and "loanStatus td = TX_BORROWED"
    and "plainId (bookId td)" and "books s (bookId td) = None"
  shows "snd (returnBook e tId s) = s \<and>
         (\<exists>err. fst (returnBook e tId s) = Inl err) \<and>
         (attempts e 0 0 = None \<and> attempts e 0 1 = None \<longrightarrow>
            fst (returnBook e tId s) = Inl (Error ''Buku tidak ditemukan.''))"
proof (intro conjI impI)
  have fails: "\<exists>err. attempt rej 2 (returnBody e tId) s = Inl err" for rej
    using assms
    by (simp add: returnAttempt_unfold doc_plain bookAt_def transactionAt_def split: option.splits)
  from returnBook_outcome [of e tId s] obtain j where
    out: "case attempt (attempts e j) 2 (returnBody e tId) s of
        Inl err \<Rightarrow>
          returnBook e tId s =
            (Inl (Error (messageOr err ''Gagal mengembalikan buku. Silakan coba lagi.'')), s)
      | Inr (r, s') \<Rightarrow>
          returnBook e tId s =
            (Inr \<lparr>transactionId = tId, message = ''Buku berhasil dikembalikan!''\<rparr>, s')"
    by blast
  from fails [of "attempts e j"] obtain err where "attempt (attempts e j) 2 (returnBody e tId) s = Inl err"
    by blast
  with out have r: "returnBook e tId s =
      (Inl (Error (messageOr err ''Gagal mengembalikan buku. Silakan coba lagi.'')), s)"
    by simp
  from r show "snd (returnBook e tId s) = s" by simp
  from r show "\<exists>err. fst (returnBook e tId s) = Inl err" by simp
  assume "attempts e 0 0 = None \<and> attempts e 0 1 = None"
  with assms have "attempt (attempts e 0) 2 (returnBody e tId) s = Inl (Error ''Buku tidak ditemukan.'')"
    by (simp add: returnAttempt_unfold doc_plain bookAt_def transactionAt_def)
  from returnBook_first_error [OF this]
  show "fst (returnBook e tId s) = Inl (Error ''Buku tidak ditemukan.'')"
    by (simp add: messageOr_def)
qed

theorem returnBook_book_missing_witness:
  "plainId ''t1'' \<and>
   transactions \<lparr>books = Map.empty, transactions = [''t1'' \<mapsto> loan1 ''b1'' TX_BORROWED None]\<rparr> ''t1''
     = Some (loan1 ''b1'' TX_BORROWED None) \<and>
   loanStatus (loan1 ''b1'' TX_BORROWED None) = TX_BORROWED \<and>
   plainId (bookId (loan1 ''b1'' TX_BORROWED None)) \<and>
   books \<lparr>books = Map.empty, transactions = [''t1'' \<mapsto> loan1 ''b1'' TX_BORROWED None]\<rparr>
     (bookId (loan1 ''b1'' TX_BORROWED None)) = None \<and>
   attempts (quiet 9 []) 0 0 = None \<and> attempts (quiet 9 []) 0 1 = None \<and>
   returnBook (quiet 9 []) ''t1''
     \<lparr>books = Map.empty, transactions = [''t1'' \<mapsto> loan1 ''b1'' TX_BORROWED None]\<rparr> =
     (Inl (Error ''Buku tidak ditemukan.''),
      \<lparr>books = Map.empty, transactions = [''t1'' \<mapsto> loan1 ''b1'' TX_BORROWED None]\<rparr>)"
  using returnBook_book_missing [of "''t1''"
      "\<lparr>books = Map.empty, transactions = [''t1'' \<mapsto> loan1 ''b1'' TX_BORROWED None]\<rparr>"
      "loan1 ''b1'' TX_BORROWED None" "quiet 9 []"]
  by (simp add: quiet_def loan1_def prod_eq_iff plainId_def)

text \<open>
  C4. Round trip: for an \<^verbatim>\<open>AVAILABLE\<close> book, a borrow followed by the return of the
  transaction id the borrow gave both succeed; afterwards the book is \<^verbatim>\<open>AVAILABLE\<close>
  again, and the transactions are those from before plus exactly one, under the id that
  was new, with status \<^verbatim>\<open>RETURNED\<close> and a \<^verbatim>\<open>returnDate\<close>.
\<close>

theorem borrow_then_return:
  assumes "plainId bId" and "books s bId = Some d" and "status d = AVAILABLE"
    and "attempts e1 0 0 = None" and "attempts e1 0 1 = None"
    and "plainId (autoId e1)" and "transactions s (autoId e1) = None"
    and "attempts e2 0 0 = None" and "attempts e2 0 1 = None" and "attempts e2 0 2 = None"
  shows "fst (borrowBook e1 bId user s) =
           Inr \<lparr>transactionId = autoId e1, message = ''Buku berhasil dipinjam!''\<rparr> \<and>
         returnBook e2 (autoId e1) (snd (borrowBook e1 bId user s)) =
           (Inr \<lparr>transactionId = autoId e1, message = ''Buku berhasil dikembalikan!''\<rparr>,
            s\<lparr>books := (books s)(bId \<mapsto> d\<lparr>status := AVAILABLE, updatedAt := Some (now e2)\<rparr>),
              transactions := (transactions s)(autoId e1 \<mapsto>
                \<lparr>bookId = bId, userId = uid user, borrowDate = now e1,
                 returnDate = Some (now e2), loanStatus = TX_RETURNED,
                 bookTitle = Some (title d), userName = Some (name user)\<rparr>)\<rparr>)"
proof -
  define s1 where "s1 = s\<lparr>books := (books s)(bId \<mapsto> d\<lparr>status := BORROWED, updatedAt := Some (now e1)\<rparr>),
      transactions := (transactions s)(autoId e1 \<mapsto>
        \<lparr>bookId = bId, userId = uid user, borrowDate = now e1, returnDate = None,
         loanStatus = TX_BORROWED, bookTitle = Some (title d), userName = Some (name user)\<rparr>)\<rparr>"
  from assms have "attempt (attempts e1 0) 1 (borrowBody e1 bId user) s = Inr (autoId e1, s1)"
    by (simp add: borrowAttempt_unfold doc_plain bookAt_def s1_def)
  from borrowBook_first_commit [OF this]
  have first: "borrowBook e1 bId user s =
      (Inr \<lparr>transactionId = autoId e1, message = ''Buku berhasil dipinjam!''\<rparr>, s1)" .
  from assms have "attempt (attempts e2 0) 2 (returnBody e2 (autoId e1)) s1 =
      Inr ((),
        s\<lparr>books := (books s)(bId \<mapsto> d\<lparr>status := AVAILABLE, updatedAt := Some (now e2)\<rparr>),
          transactions := (transactions s)(autoId e1 \<mapsto>
            \<lparr>bookId = bId, userId = uid user, borrowDate = now e1,
             returnDate = Some (now e2), loanStatus = TX_RETURNED,
             bookTitle = Some (title d), userName = Some (name user)\<rparr>)\<rparr>)"
    by (simp add: returnAttempt_unfold doc_plain bookAt_def transactionAt_def s1_def)
  from returnBook_first_commit [OF this] first show ?thesis
    by simp
qed

theorem borrow_then_return_witness:
  "plainId ''b1'' \<and>
   books (library AVAILABLE Map.empty) ''b1'' = Some (book1 AVAILABLE) \<and>
   status (book1 AVAILABLE) = AVAILABLE \<and>
   attempts (quiet 5 ''t1'') 0 0 = None \<and> attempts (quiet 5 ''t1'') 0 1 = None \<and>
   plainId (autoId (quiet 5 ''t1'')) \<and>
   transactions (library AVAILABLE Map.empty) (autoId (quiet 5 ''t1'')) = None \<and>
   attempts (quiet 8 []) 0 0 = None \<and> attempts (quiet 8 []) 0 1 = None \<and>
   attempts (quiet 8 []) 0 2 = None \<and>
   fst (borrowBook (quiet 5 ''t1'') ''b1'' user1 (library AVAILABLE Map.empty)) =
     Inr \<lparr>transactionId = ''t1'', message = ''Buku berhasil dipinjam!''\<rparr> \<and>
   returnBook (quiet 8 []) ''t1''
       (snd (borrowBook (quiet 5 ''t1'') ''b1'' user1 (library AVAILABLE Map.empty))) =
     (Inr \<lparr>transactionId = ''t1'', message = ''Buku berhasil dikembalikan!''\<rparr>,
      \<lparr>books = [''b1'' \<mapsto> (book1 AVAILABLE)\<lparr>updatedAt := Some 8\<rparr>],
       transactions = [''t1'' \<mapsto>
         \<lparr>bookId = ''b1'', userId = ''u1'', borrowDate = 5, returnDate = Some 8,
          loanStatus = TX_RETURNED, bookTitle = Some ''Laskar Pelangi'',
          userName = Some ''Ani''\<rparr>]\<rparr>)"
  using borrow_then_return [of "''b1''" "library AVAILABLE Map.empty" "book1 AVAILABLE"
      "quiet 5 ''t1''" "quiet 8 []" user1]
  by (simp add: library_def quiet_def book1_def user1_def plainId_def)

text \<open>
  C3. Returning a transaction whose status is \<^verbatim>\<open>RETURNED\<close> fails with the
  already-returned error (\<^verbatim>\<open>'Buku sudah dikembalikan sebelumnya.'\<close>) whenever its read
  reaches the store; whatever the store does, the call fails and leaves the whole
  database unchanged. And a \<^verbatim>\<open>RETURNED\<close> transaction stays the same document through
  any sequence of calls of \<^verbatim>\<open>addBook\<close>, \<^verbatim>\<open>borrowBook\<close> and \<^verbatim>\<open>returnBook\<close>.
\<close>

theorem returnBook_already_returned:
  "(plainId tId \<and> transactions s tId = Some td \<and> loanStatus td = TX_RETURNED \<and>
    attempts e 0 0 = None \<longrightarrow>
      returnBook e tId s = (Inl (Error ''Buku sudah dikembalikan sebelumnya.''), s)) \<and>
   (plainId tId \<and> transactions s tId = Some td \<and> loanStatus td = TX_RETURNED \<longrightarrow>
      (\<exists>err. returnBook e tId s = (Inl err, s))) \<and>
   (transactions s0 t0 = Some td0 \<and> loanStatus td0 = TX_RETURNED \<and> loan_step\<^sup>*\<^sup>* s0 s1 \<longrightarrow>
      transactions s1 t0 = Some td0)"
proof -
  have c1: "plainId tId \<and> transactions s tId = Some td \<and> loanStatus td = TX_RETURNED \<and>
    attempts e 0 0 = None \<longrightarrow>
      returnBook e tId s = (Inl (Error ''Buku sudah dikembalikan sebelumnya.''), s)"
  proof
    assume "plainId tId \<and> transactions s tId = Some td \<and> loanStatus td = TX_RETURNED \<and>
      attempts e 0 0 = None"
    then have "attempt (attempts e 0) 2 (returnBody e tId) s =
        Inl (Error ''Buku sudah dikembalikan sebelumnya.'')"
      by (simp add: returnAttempt_unfold doc_plain transactionAt_def)
    from returnBook_first_error [OF this]
    show "returnBook e tId s = (Inl (Error ''Buku sudah dikembalikan sebelumnya.''), s)"
      by (simp add: messageOr_def)
  qed
  have c2: "plainId tId \<and> transactions s tId = Some td \<and> loanStatus td = TX_RETURNED \<longrightarrow>
      (\<exists>err. returnBook e tId s = (Inl err, s))"
  proof
    assume a: "plainId tId \<and> transactions s tId = Some td \<and> loanStatus td = TX_RETURNED"
    have fails: "\<exists>err. attempt rej 2 (returnBody e tId) s = Inl err" for rej
      using a by (simp add: returnAttempt_unfold doc_plain transactionAt_def split: option.splits)
    from returnBook_outcome [of e tId s] obtain j where
      out: "case attempt (attempts e j) 2 (returnBody e tId) s of
          Inl err \<Rightarrow>
            returnBook e tId s =
              (Inl (Error (messageOr err ''Gagal mengembalikan buku. Silakan coba lagi.'')), s)
        | Inr (r, s') \<Rightarrow>
            returnBook e tId s =
              (Inr \<lparr>transactionId = tId, message = ''Buku berhasil dikembalikan!''\<rparr>, s')"
      by blast
    from fails [of "attempts e j"] obtain err where
      "attempt (attempts e j) 2 (returnBody e tId) s = Inl err"
      by blast
    with out show "\<exists>err. returnBook e tId s = (Inl err, s)"
      by simp
  qed
  have c3: "transactions s0 t0 = Some td0 \<and> loanStatus td0 = TX_RETURNED \<and> loan_step\<^sup>*\<^sup>* s0 s1 \<longrightarrow>
      transactions s1 t0 = Some td0"
  proof
    assume a: "transactions s0 t0 = Some td0 \<and> loanStatus td0 = TX_RETURNED \<and> loan_step\<^sup>*\<^sup>* s0 s1"
    have step: "transactions b t0 = Some td0" if "loan_step a b" and "transactions a t0 = Some td0" for a b
      using that
    proof (induction rule: loan_step.induct)
      case (step_addBook s e bookData coverImageUri)
      then show ?case by (simp add: addBook_unfold)
    next
      case (step_borrowBook s e bId user)
      from borrowBook_state [of e bId user s] step_borrowBook show ?case
        by (auto simp add: unused_id_def)
    next
      case (step_returnBook s e tId)
      from returnBook_state [of e tId s] step_returnBook a show ?case
        by auto
    qed
    from a have "loan_step\<^sup>*\<^sup>* s0 s1" and "transactions s0 t0 = Some td0" by simp_all
    then show "transactions s1 t0 = Some td0"
      by (induction rule: rtranclp_induct) (auto intro: step)
  qed
  from c1 c2 c3 show ?thesis by blast
qed

theorem returnBook_already_returned_witness:
  "(plainId ''t1'' \<and>
    transactions (library AVAILABLE [''t1'' \<mapsto> loan1 ''b1'' TX_RETURNED (Some 4)]) ''t1'' =
      Some (loan1 ''b1'' TX_RETURNED (Some 4)) \<and>
    loanStatus (loan1 ''b1'' TX_RETURNED (Some 4)) = TX_RETURNED \<and>
    attempts (quiet 9 []) 0 0 = None) \<and>
   returnBook (quiet 9 []) ''t1'' (library AVAILABLE [''t1'' \<mapsto> loan1 ''b1'' TX_RETURNED (Some 4)]) =
     (Inl (Error ''Buku sudah dikembalikan sebelumnya.''),
      library AVAILABLE [''t1'' \<mapsto> loan1 ''b1'' TX_RETURNED (Some 4)]) \<and>
   loan_step\<^sup>*\<^sup>* (library AVAILABLE [''t1'' \<mapsto> loan1 ''b1'' TX_RETURNED (Some 4)])
     (snd (borrowBook (quiet 5 ''t2'') ''b1'' user2
        (library AVAILABLE [''t1'' \<mapsto> loan1 ''b1'' TX_RETURNED (Some 4)]))) \<and>
   transactions
     (snd (borrowBook (quiet 5 ''t2'') ''b1'' user2
        (library AVAILABLE [''t1'' \<mapsto> loan1 ''b1'' TX_RETURNED (Some 4)]))) ''t1'' =
     Some (loan1 ''b1'' TX_RETURNED (Some 4))"
proof -
  let ?s = "library AVAILABLE [''t1'' \<mapsto> loan1 ''b1'' TX_RETURNED (Some 4)]"
  let ?s' = "snd (borrowBook (quiet 5 ''t2'') ''b1'' user2 ?s)"
  have "unused_id ?s (autoId (quiet 5 ''t2''))"
    by (simp add: unused_id_def library_def quiet_def loan1_def refersTo_plain plainId_def)
  then have "loan_step ?s ?s'"
    by (rule step_borrowBook)
  then have run: "loan_step\<^sup>*\<^sup>* ?s ?s'"
    by (rule r_into_rtranclp)
  have given: "plainId ''t1''" "transactions ?s ''t1'' = Some (loan1 ''b1'' TX_RETURNED (Some 4))"
    "loanStatus (loan1 ''b1'' TX_RETURNED (Some 4)) = TX_RETURNED"
    "attempts (quiet 9 []) 0 0 = None"
    by (simp_all add: library_def loan1_def quiet_def plainId_def)
  from returnBook_already_returned [where tId = "''t1''" and s = ?s
      and td = "loan1 ''b1'' TX_RETURNED (Some 4)" and e = "quiet 9 []" and ?s0.0 = ?s
      and ?t0.0 = "''t1''" and ?td0.0 = "loan1 ''b1'' TX_RETURNED (Some 4)" and ?s1.0 = ?s'] given run
  show ?thesis by simp
qed

subsection \<open>The invariant\<close>

lemma borrowedLoans_alt:
  "borrowedLoans s b =
     {t. \<exists>d. transactions s t = Some d \<and> refersTo (bookId d) b \<and> loanStatus d = TX_BORROWED}"
  by (auto simp add: borrowedLoans_def queryTransactions_def split: option.splits)

lemma borrowedLoans_books_update [simp]:
  "borrowedLoans (s\<lparr>books := bs\<rparr>) b = borrowedLoans s b"
  by (simp add: borrowedLoans_alt)

lemma loans_consistent_imp_invariant:
  assumes "loans_consistent s"
  shows "book_loan_invariant s"
  unfolding book_loan_invariant_def
proof (intro allI impI)
  fix b d
  assume "books s b = Some d"
  with assms have borrowed: "status d = BORROWED \<longrightarrow> (\<exists>!t. t \<in> borrowedLoans s b)"
    and available: "status d = AVAILABLE \<longrightarrow> borrowedLoans s b = {}"
    by (simp_all add: loans_consistent_def)
  show "(status d = BORROWED) = (\<exists>!t. t \<in> borrowedLoans s b)"
  proof (cases "status d")
    case AVAILABLE
    with available have "borrowedLoans s b = {}" by simp
    with AVAILABLE show ?thesis by auto
  next
    case BORROWED
    with borrowed show ?thesis by simp
  qed
qed

lemma addBook_consistent:
  assumes "loans_consistent s" and "unused_id s (autoId e)"
  shows "loans_consistent (snd (addBook e bookData coverImageUri s))"
proof -
  have none: "borrowedLoans s (autoId e) = {}"
    using assms(2) by (auto simp add: unused_id_def borrowedLoans_alt)
  from addBook_state [of e bookData coverImageUri s] show ?thesis
  proof
    assume "snd (addBook e bookData coverImageUri s) = s"
    with assms(1) show ?thesis by simp
  next
    assume "\<exists>d. status d = AVAILABLE \<and>
      snd (addBook e bookData coverImageUri s) = s\<lparr>books := (books s)(autoId e \<mapsto> d)\<rparr>"
    then obtain d where d: "status d = AVAILABLE"
      and s': "snd (addBook e bookData coverImageUri s) = s\<lparr>books := (books s)(autoId e \<mapsto> d)\<rparr>"
      by blast
    show ?thesis
      unfolding loans_consistent_def s'
    proof (intro allI impI)
      fix b d'
      assume b: "books (s\<lparr>books := (books s)(autoId e \<mapsto> d)\<rparr>) b = Some d'"
      show "(status d' = BORROWED \<longrightarrow>
              (\<exists>!t. t \<in> borrowedLoans (s\<lparr>books := (books s)(autoId e \<mapsto> d)\<rparr>) b)) \<and>
            (status d' = AVAILABLE \<longrightarrow>
              borrowedLoans (s\<lparr>books := (books s)(autoId e \<mapsto> d)\<rparr>) b = {})"
      proof (cases "b = autoId e")
        case True
        with b d have "status d' = AVAILABLE" by auto
        with True none show ?thesis by simp
      next
        case False
        with b have "books s b = Some d'" by simp
        with assms(1) show ?thesis by (simp add: loans_consistent_def)
      qed
    qed
  qed
qed

lemma borrowBook_consistent:
  assumes "loans_consistent s" and "transactions s (autoId e) = None"
  shows "loans_consistent (snd (borrowBook e bId user s))"
proof -
  from borrowBook_state [of e bId user s] show ?thesis
  proof
    assume "snd (borrowBook e bId user s) = s"
    with assms(1) show ?thesis by simp
  next
    assume "\<exists>k d. refersTo bId k \<and> books s k = Some d \<and> status d \<noteq> BORROWED \<and>
      snd (borrowBook e bId user s) =
        s\<lparr>books := (books s)(k \<mapsto> d\<lparr>status := BORROWED, updatedAt := Some (now e)\<rparr>),
          transactions := (transactions s)(autoId e \<mapsto>
            \<lparr>bookId = bId, userId = uid user, borrowDate = now e, returnDate = None,
             loanStatus = TX_BORROWED, bookTitle = Some (title d),
             userName = Some (name user)\<rparr>)\<rparr>"
    then obtain k d where k: "refersTo bId k" and d: "books s k = Some d" "status d \<noteq> BORROWED"
      and s': "snd (borrowBook e bId user s) =
        s\<lparr>books := (books s)(k \<mapsto> d\<lparr>status := BORROWED, updatedAt := Some (now e)\<rparr>),
          transactions := (transactions s)(autoId e \<mapsto>
            \<lparr>bookId = bId, userId = uid user, borrowDate = now e, returnDate = None,
             loanStatus = TX_BORROWED, bookTitle = Some (title d),
             userName = Some (name user)\<rparr>)\<rparr>"
      by blast
    have fresh: "autoId e \<notin> borrowedLoans s b" for b
      using assms(2) by (simp add: borrowedLoans_alt)
    have avail: "status d = AVAILABLE"
      using d(2) by (cases "status d") simp_all
    have empty: "borrowedLoans s k = {}"
      using assms(1) d(1) avail by (simp add: loans_consistent_def)
    have other: "\<not> refersTo bId b" if "b \<noteq> k" for b
      using refersTo_unique [OF k] that by blast
    have loans: "borrowedLoans (snd (borrowBook e bId user s)) b =
        (if b = k then {autoId e} else borrowedLoans s b)" for b
    proof (cases "b = k")
      case True
      with fresh [of k] empty k show ?thesis
        by (auto simp add: s' borrowedLoans_alt)
    next
      case False
      with fresh [of b] other [OF False] show ?thesis
        by (auto simp add: s' borrowedLoans_alt)
    qed
    show ?thesis
      unfolding loans_consistent_def
    proof (intro allI impI)
      fix b d'
      assume b: "books (snd (borrowBook e bId user s)) b = Some d'"
      show "(status d' = BORROWED \<longrightarrow> (\<exists>!t. t \<in> borrowedLoans (snd (borrowBook e bId user s)) b)) \<and>
            (status d' = AVAILABLE \<longrightarrow> borrowedLoans (snd (borrowBook e bId user s)) b = {})"
      proof (cases "b = k")
        case True
        with b have "status d' = BORROWED" by (auto simp add: s')
        with True show ?thesis by (simp add: loans)
      next
        case False
        with b have "books s b = Some d'" by (simp add: s')
        with assms(1) False show ?thesis by (simp add: loans loans_consistent_def)
      qed
    qed
  qed
qed

lemma returnBook_consistent:
  assumes "loans_consistent s"
  shows "loans_consistent (snd (returnBook e tId s))"
proof -
  from returnBook_state [of e tId s] show ?thesis
  proof
    assume "snd (returnBook e tId s) = s"
    with assms show ?thesis by simp
  next
    assume "\<exists>t td k bd. transactions s t = Some td \<and> loanStatus td \<noteq> TX_RETURNED \<and>
      refersTo (bookId td) k \<and> books s k = Some bd \<and>
      snd (returnBook e tId s) =
        s\<lparr>books := (books s)(k \<mapsto> bd\<lparr>status := AVAILABLE, updatedAt := Some (now e)\<rparr>),
          transactions := (transactions s)(t \<mapsto>
            td\<lparr>loanStatus := TX_RETURNED, returnDate := Some (now e)\<rparr>)\<rparr>"
    then obtain t td k bd where td: "transactions s t = Some td" "loanStatus td \<noteq> TX_RETURNED"
      and k: "refersTo (bookId td) k" and bd: "books s k = Some bd"
      and s': "snd (returnBook e tId s) =
        s\<lparr>books := (books s)(k \<mapsto> bd\<lparr>status := AVAILABLE, updatedAt := Some (now e)\<rparr>),
          transactions := (transactions s)(t \<mapsto>
            td\<lparr>loanStatus := TX_RETURNED, returnDate := Some (now e)\<rparr>)\<rparr>"
      by blast
    have open_loan: "loanStatus td = TX_BORROWED"
      using td(2) by (cases "loanStatus td") simp_all
    have mem: "t \<in> borrowedLoans s k"
      using td(1) open_loan k by (auto simp add: borrowedLoans_alt)
    have loans: "borrowedLoans (snd (returnBook e tId s)) b = borrowedLoans s b - {t}" for b
      by (auto simp add: s' borrowedLoans_alt)
    have only: "borrowedLoans s k = {t}"
    proof (cases "status bd")
      case AVAILABLE
      with assms bd have "borrowedLoans s k = {}" by (simp add: loans_consistent_def)
      with mem show ?thesis by simp
    next
      case BORROWED
      with assms bd have "\<exists>!x. x \<in> borrowedLoans s k"
        by (simp add: loans_consistent_def)
      with mem show ?thesis by auto
    qed
    have other: "t \<notin> borrowedLoans s b" if "b \<noteq> k" for b
      using td(1) that refersTo_unique [OF k] by (auto simp add: borrowedLoans_alt)
    show ?thesis
      unfolding loans_consistent_def
    proof (intro allI impI)
      fix b d'
      assume b: "books (snd (returnBook e tId s)) b = Some d'"
      show "(status d' = BORROWED \<longrightarrow> (\<exists>!x. x \<in> borrowedLoans (snd (returnBook e tId s)) b)) \<and>
            (status d' = AVAILABLE \<longrightarrow> borrowedLoans (snd (returnBook e tId s)) b = {})"
      proof (cases "b = k")
        case True
        with b have "status d' = AVAILABLE" by (auto simp add: s')
        with True only show ?thesis by (simp add: loans)
      next
        case False
        with b have "books s b = Some d'" by (simp add: s')
        with assms other [OF False] show ?thesis by (simp add: loans loans_consistent_def)
      qed
    qed
  qed
qed

lemma loan_step_consistent:
  "loan_step s s' \<Longrightarrow> loans_consistent s \<Longrightarrow> loans_consistent s'"
  by (induction rule: loan_step.induct)
    (simp_all add: addBook_consistent borrowBook_consistent returnBook_consistent unused_id_def)

text \<open>
  C1, as the data model words the invariant. An \<^verbatim>\<open>AVAILABLE\<close> book with two
  \<^verbatim>\<open>BORROWED\<close> transactions satisfies "borrowed if and only if exactly one borrowed
  transaction"; borrowing it succeeds and leaves a \<^verbatim>\<open>BORROWED\<close> book with three, which
  does not.
\<close>

theorem book_loan_invariant_counterexample:
  "book_loan_invariant
     (library AVAILABLE [''t1'' \<mapsto> loan1 ''b1'' TX_BORROWED None, ''t2'' \<mapsto> loan1 ''b1'' TX_BORROWED None]) \<and>
   loan_step
     (library AVAILABLE [''t1'' \<mapsto> loan1 ''b1'' TX_BORROWED None, ''t2'' \<mapsto> loan1 ''b1'' TX_BORROWED None])
     (snd (borrowBook (quiet 5 ''t3'') ''b1'' user2
        (library AVAILABLE [''t1'' \<mapsto> loan1 ''b1'' TX_BORROWED None, ''t2'' \<mapsto> loan1 ''b1'' TX_BORROWED None]))) \<and>
   \<not> book_loan_invariant
     (snd (borrowBook (quiet 5 ''t3'') ''b1'' user2
        (library AVAILABLE [''t1'' \<mapsto> loan1 ''b1'' TX_BORROWED None, ''t2'' \<mapsto> loan1 ''b1'' TX_BORROWED None])))"
proof -
  let ?s = "library AVAILABLE [''t1'' \<mapsto> loan1 ''b1'' TX_BORROWED None, ''t2'' \<mapsto> loan1 ''b1'' TX_BORROWED None]"
  let ?s' = "snd (borrowBook (quiet 5 ''t3'') ''b1'' user2 ?s)"
  have b1: "plainId ''b1''"
    by (simp add: plainId_def)
  have t1: "''t1'' \<in> borrowedLoans ?s ''b1''" and t2: "''t2'' \<in> borrowedLoans ?s ''b1''"
    by (simp_all add: borrowedLoans_alt library_def loan1_def refersTo_plain [OF b1])
  have "\<not> (\<exists>!t. t \<in> borrowedLoans ?s ''b1'')"
  proof
    assume "\<exists>!t. t \<in> borrowedLoans ?s ''b1''"
    with t1 t2 have "''t1'' = ''t2''" by blast
    then show False by simp
  qed
  then have before: "book_loan_invariant ?s"
    by (simp add: book_loan_invariant_def library_def book1_def)
  have "unused_id ?s (autoId (quiet 5 ''t3''))"
    by (simp add: unused_id_def library_def quiet_def loan1_def refersTo_plain [OF b1])
  then have step: "loan_step ?s ?s'"
    by (rule step_borrowBook)
  have "attempt (attempts (quiet 5 ''t3'') 0) 1 (borrowBody (quiet 5 ''t3'') ''b1'' user2) ?s =
      Inr (''t3'',
        ?s\<lparr>books := (books ?s)(''b1'' \<mapsto> (book1 BORROWED)\<lparr>updatedAt := Some 5\<rparr>),
           transactions := (transactions ?s)(''t3'' \<mapsto>
             \<lparr>bookId = ''b1'', userId = uid user2, borrowDate = 5, returnDate = None,
              loanStatus = TX_BORROWED, bookTitle = Some ''Laskar Pelangi'',
              userName = Some (name user2)\<rparr>)\<rparr>)"
    by (simp add: borrowAttempt_unfold doc_plain [OF b1] bookAt_def quiet_def library_def book1_def)
  from borrowBook_first_commit [OF this]
  have s': "?s' =
        ?s\<lparr>books := (books ?s)(''b1'' \<mapsto> (book1 BORROWED)\<lparr>updatedAt := Some 5\<rparr>),
           transactions := (transactions ?s)(''t3'' \<mapsto>
             \<lparr>bookId = ''b1'', userId = uid user2, borrowDate = 5, returnDate = None,
              loanStatus = TX_BORROWED, bookTitle = Some ''Laskar Pelangi'',
              userName = Some (name user2)\<rparr>)\<rparr>"
    by simp
  have b: "books ?s' ''b1'' = Some ((book1 BORROWED)\<lparr>updatedAt := Some 5\<rparr>)"
    unfolding s' by simp
  have t1': "''t1'' \<in> borrowedLoans ?s' ''b1''" and t2': "''t2'' \<in> borrowedLoans ?s' ''b1''"
    unfolding s' by (simp_all add: borrowedLoans_alt library_def loan1_def refersTo_plain [OF b1])
  have many: "\<not> (\<exists>!t. t \<in> borrowedLoans ?s' ''b1'')"
  proof
    assume "\<exists>!t. t \<in> borrowedLoans ?s' ''b1''"
    with t1' t2' have "''t1'' = ''t2''" by blast
    then show False by simp
  qed
  have after: "\<not> book_loan_invariant ?s'"
  proof
    assume "book_loan_invariant ?s'"
    with b have "(status ((book1 BORROWED)\<lparr>updatedAt := Some 5\<rparr>) = BORROWED) =
        (\<exists>!t. t \<in> borrowedLoans ?s' ''b1'')"
      unfolding book_loan_invariant_def by blast
    with many show False by (simp add: book1_def)
  qed
  from before step after show ?thesis by simp
qed

text \<open>
  C1, amended. With the invariant read as: a \<^verbatim>\<open>BORROWED\<close> book has exactly one
  \<^verbatim>\<open>BORROWED\<close> transaction and an \<^verbatim>\<open>AVAILABLE\<close> book has none, every state reached
  from a state satisfying it by calls of \<^verbatim>\<open>addBook\<close>, \<^verbatim>\<open>borrowBook\<close> and
  \<^verbatim>\<open>returnBook\<close> (each with a generated id that is new) satisfies it, and with it the
  invariant as the data model words it.
\<close>

theorem loan_invariant_preserved:
  assumes "loans_consistent s" and "loan_step\<^sup>*\<^sup>* s s'"
  shows "loans_consistent s' \<and> book_loan_invariant s'"
proof -
  from assms(2) assms(1) have "loans_consistent s'"
    by (induction rule: rtranclp_induct) (auto intro: loan_step_consistent)
  then show ?thesis by (simp add: loans_consistent_imp_invariant)
qed

theorem loan_invariant_preserved_witness:
  "loans_consistent (library AVAILABLE Map.empty) \<and>
   loan_step\<^sup>*\<^sup>* (library AVAILABLE Map.empty)
     (snd (borrowBook (quiet 5 ''t1'') ''b1'' user1 (library AVAILABLE Map.empty))) \<and>
   loans_consistent (snd (borrowBook (quiet 5 ''t1'') ''b1'' user1 (library AVAILABLE Map.empty))) \<and>
   book_loan_invariant (snd (borrowBook (quiet 5 ''t1'') ''b1'' user1 (library AVAILABLE Map.empty)))"
proof -
  have start: "loans_consistent (library AVAILABLE Map.empty)"
    by (simp add: loans_consistent_def library_def borrowedLoans_alt book1_def)
  have "unused_id (library AVAILABLE Map.empty) (autoId (quiet 5 ''t1''))"
    by (simp add: unused_id_def library_def quiet_def)
  then have "loan_step (library AVAILABLE Map.empty)
     (snd (borrowBook (quiet 5 ''t1'') ''b1'' user1 (library AVAILABLE Map.empty)))"
    by (rule step_borrowBook)
  then have run: "loan_step\<^sup>*\<^sup>* (library AVAILABLE Map.empty)
     (snd (borrowBook (quiet 5 ''t1'') ''b1'' user1 (library AVAILABLE Map.empty)))"
    by (rule r_into_rtranclp)
  from loan_invariant_preserved [OF start run] start run show ?thesis by simp
qed

subsection \<open>Failures\<close>




subsection \<open>Deleting a book, asking for a loan\<close>

text \<open>
  C9. \<^verbatim>\<open>deleteBook\<close> asks nothing of the book's status: for every existing book, when
  the read and the deletion reach the store, it succeeds, removes the book document and
  leaves every transaction as it was, so that an outstanding \<^verbatim>\<open>BORROWED\<close> transaction
  then references a book that does not exist.
\<close>

theorem deleteBook_any_status:
  assumes "plainId bId" and "books s bId = Some d"
    and "rejects e 0 = None" and "rejects e 2 = None"
  shows "deleteBook e bId s = (Inr (), s\<lparr>books := (books s)(bId := None)\<rparr>) \<and>
         books (snd (deleteBook e bId s)) bId = None \<and>
         transactions (snd (deleteBook e bId s)) = transactions s \<and>
         borrowedLoans (snd (deleteBook e bId s)) bId = borrowedLoans s bId"
  using assms by (simp add: deleteBook_plain borrowedLoans_alt)

theorem deleteBook_any_status_witness:
  "plainId ''b1'' \<and>
   books (library BORROWED [''t1'' \<mapsto> loan1 ''b1'' TX_BORROWED None]) ''b1'' = Some (book1 BORROWED) \<and>
   rejects (quiet 9 []) 0 = None \<and> rejects (quiet 9 []) 2 = None \<and>
   deleteBook (quiet 9 []) ''b1'' (library BORROWED [''t1'' \<mapsto> loan1 ''b1'' TX_BORROWED None]) =
     (Inr (), \<lparr>books = Map.empty, transactions = [''t1'' \<mapsto> loan1 ''b1'' TX_BORROWED None]\<rparr>)"
  using deleteBook_any_status [of "''b1''" "library BORROWED [''t1'' \<mapsto> loan1 ''b1'' TX_BORROWED None]"
      "book1 BORROWED" "quiet 9 []"]
  by (simp add: library_def quiet_def plainId_def)

text \<open>
  C10. When the query reaches the store, \<^verbatim>\<open>hasUserBorrowedBook\<close> is true exactly when
  some transaction has that user, that book and status \<^verbatim>\<open>BORROWED\<close>. When the query
  fails it is false: the answer the caller gets for a user who does not hold the book.
\<close>

theorem hasUserBorrowedBook_answer:
  "(rejects e 0 = None \<longrightarrow>
      hasUserBorrowedBook e uId bId s =
        (\<exists>t d. transactions s t = Some d \<and> userId d = uId \<and> bookId d = bId \<and>
               loanStatus d = TX_BORROWED)) \<and>
   (rejects e 0 \<noteq> None \<longrightarrow> hasUserBorrowedBook e uId bId s = False) \<and>
   (rejects e 0 \<noteq> None \<and> rejects e' 0 = None \<and>
    \<not> (\<exists>t d. transactions s' t = Some d \<and> userId d = uId \<and> bookId d = bId \<and>
           loanStatus d = TX_BORROWED) \<longrightarrow>
      hasUserBorrowedBook e uId bId s = hasUserBorrowedBook e' uId bId s')"
  by (auto simp add: hasUserBorrowedBook_def queryTransactions_def split: option.splits)

theorem hasUserBorrowedBook_answer_witness:
  "rejects (quiet 9 []) 0 = None \<and>
   hasUserBorrowedBook (quiet 9 []) ''u1'' ''b1''
     (library BORROWED [''t1'' \<mapsto> loan1 ''b1'' TX_BORROWED None]) \<and>
   \<not> hasUserBorrowedBook (quiet 9 []) ''u2'' ''b1''
     (library BORROWED [''t1'' \<mapsto> loan1 ''b1'' TX_BORROWED None]) \<and>
   rejects (failing 0 (FirebaseError UNAVAILABLE ''The service is currently unavailable.'')) 0 \<noteq> None \<and>
   \<not> hasUserBorrowedBook (failing 0 (FirebaseError UNAVAILABLE ''The service is currently unavailable.''))
     ''u1'' ''b1'' (library BORROWED [''t1'' \<mapsto> loan1 ''b1'' TX_BORROWED None]) \<and>
   hasUserBorrowedBook (failing 0 (FirebaseError UNAVAILABLE ''The service is currently unavailable.''))
     ''u1'' ''b1'' (library BORROWED [''t1'' \<mapsto> loan1 ''b1'' TX_BORROWED None]) =
   hasUserBorrowedBook (quiet 9 []) ''u1'' ''b1'' (library AVAILABLE Map.empty)"
  using hasUserBorrowedBook_answer [of "quiet 9 []" "''u1''" "''b1''"
      "library BORROWED [''t1'' \<mapsto> loan1 ''b1'' TX_BORROWED None]" "quiet 9 []" "library AVAILABLE Map.empty"]
    hasUserBorrowedBook_answer [of "quiet 9 []" "''u2''" "''b1''"
      "library BORROWED [''t1'' \<mapsto> loan1 ''b1'' TX_BORROWED None]" "quiet 9 []" "library AVAILABLE Map.empty"]
    hasUserBorrowedBook_answer [of
      "failing 0 (FirebaseError UNAVAILABLE ''The service is currently unavailable.'')" "''u1''" "''b1''"
      "library BORROWED [''t1'' \<mapsto> loan1 ''b1'' TX_BORROWED None]" "quiet 9 []" "library AVAILABLE Map.empty"]
  by (auto simp add: library_def quiet_def failing_def loan1_def split: if_splits)

end
